theory Spec2Isabelle
  imports Complex_Main "HOL-Library.Multiset"
begin

section \<open>The cart screen's order-total computation\<close>

text \<open>
  The definitions below embed the helpers and state handlers of the cart screen
  (the file that declares \<^verbatim>\<open>toNum\<close>, \<^verbatim>\<open>calcCouponDiscount\<close>,
  \<^verbatim>\<open>calculateShippingCost\<close>, \<^verbatim>\<open>calculateTaxes\<close>,
  \<^verbatim>\<open>calculateGSTBreakdown\<close>, \<^verbatim>\<open>determinePaymentMethod\<close> and the
  \<^verbatim>\<open>Cart\<close> component).

  Numbers. A JavaScript number that is finite is modelled by the rational it denotes;
  the two zeros are one. The values that are not finite are kept (\<open>NaN\<close>, \<open>PInf\<close>,
  \<open>NInf\<close>) wherever the source can produce them. The numbers stored in a cart item or
  returned by \<^verbatim>\<open>toNum\<close> are finite by construction (prices are results of
  \<^verbatim>\<open>toNum\<close>, quantities are numbers of the persisted cart or such a quantity plus
  or minus one), so they have type \<open>rat\<close>.

  Rounding. \<open>round_double\<close> is the rounding of IEEE 754 binary64: to the nearest
  double, to the even one on a tie, to an infinity on overflow. \<^verbatim>\<open>parseFloat\<close> rounds
  what it reads with it. The arithmetic comes twice. \<open>jadd\<close>, \<open>jmul\<close>,
  \<open>jdiv_lit\<close> and the operations of \<open>rat\<close> are exact: the coupon discount, the
  state handlers and the derived totals are written with them, and so are
  \<open>items_subtotal\<close> and \<open>calculateTaxes\<close>, which say what is added up.
  \<open>dadd\<close>, \<open>dmul\<close> and \<open>ddiv_lit\<close> round each result as the engine does:
  \<open>items_subtotal_ieee\<close>, \<open>calculateTaxes_ieee\<close> and
  \<open>calculateGSTBreakdown\<close> are written with them, and the properties that depend on
  the last digits of a sum are stated of these.
\<close>

subsection \<open>Numbers and values\<close>

datatype jsnum = Fin rat | NaN | PInf | NInf

text \<open>A value as it arrives from parsed JSON, as far as \<^verbatim>\<open>toNum\<close> is applied to it.\<close>

datatype jsany = JUndefined | JNull | JBool bool | JNum jsnum | JStr string

fun jneg :: "jsnum \<Rightarrow> jsnum" where
  "jneg (Fin a) = Fin (- a)"
| "jneg NaN = NaN"
| "jneg PInf = NInf"
| "jneg NInf = PInf"

fun jadd :: "jsnum \<Rightarrow> jsnum \<Rightarrow> jsnum" where
  "jadd (Fin a) (Fin b) = Fin (a + b)"
| "jadd NaN _ = NaN"
| "jadd _ NaN = NaN"
| "jadd PInf NInf = NaN"
| "jadd NInf PInf = NaN"
| "jadd PInf _ = PInf"
| "jadd _ PInf = PInf"
| "jadd NInf _ = NInf"
| "jadd _ NInf = NInf"


text \<open>The sign of an infinity times a finite factor; zero times an infinity is NaN.\<close>

definition inf_times :: "bool \<Rightarrow> rat \<Rightarrow> jsnum" where
  "inf_times positive b =
     (if b = 0 then NaN else if (0 < b) = positive then PInf else NInf)"

fun jmul :: "jsnum \<Rightarrow> jsnum \<Rightarrow> jsnum" where
  "jmul (Fin a) (Fin b) = Fin (a * b)"
| "jmul NaN _ = NaN"
| "jmul _ NaN = NaN"
| "jmul PInf (Fin b) = inf_times True b"
| "jmul NInf (Fin b) = inf_times False b"
| "jmul (Fin a) PInf = inf_times True a"
| "jmul (Fin a) NInf = inf_times False a"
| "jmul PInf PInf = PInf"
| "jmul NInf NInf = PInf"
| "jmul PInf NInf = NInf"
| "jmul NInf PInf = NInf"

text \<open>Division by a positive literal; the source divides by \<open>100\<close> and by \<open>2\<close> only.\<close>

fun jdiv_lit :: "jsnum \<Rightarrow> rat \<Rightarrow> jsnum" where
  "jdiv_lit (Fin a) d = Fin (a / d)"
| "jdiv_lit x d = x"

fun is_finite :: "jsnum \<Rightarrow> bool" where
  "is_finite (Fin a) = True"
| "is_finite _ = False"

subsection \<open>Doubles\<close>

text \<open>The exponent of the binade of a positive rational: the largest \<open>e\<close> from
  \<open>-1021\<close> to \<open>1023\<close> with \<open>2\<^sup>e \<le> a\<close>, and \<open>-1022\<close>, the exponent of the
  smallest normal and of the subnormal doubles, when there is none.\<close>

fun binade_below :: "nat \<Rightarrow> rat \<Rightarrow> int" where
  "binade_below 0 a = - 1022"
| "binade_below (Suc k) a =
     (if 2 powi (int k - 1021) \<le> a then int k - 1021 else binade_below k a)"

definition binade :: "rat \<Rightarrow> int" where
  "binade a = binade_below 2045 a"

definition round_half_even :: "rat \<Rightarrow> int" where
  "round_half_even q =
     (if q - of_int \<lfloor>q\<rfloor> < 1 / 2 then \<lfloor>q\<rfloor>
      else if 1 / 2 < q - of_int \<lfloor>q\<rfloor> then \<lfloor>q\<rfloor> + 1
      else if even \<lfloor>q\<rfloor> then \<lfloor>q\<rfloor> else \<lfloor>q\<rfloor> + 1)"

text \<open>The double nearest to a rational: a multiple of the unit in the last place of its
  binade (53 significant bits), the even multiple on a tie; from \<open>2\<^sup>1\<^sup>0\<^sup>2\<^sup>4\<close> on
  the result is an infinity.\<close>

definition round_double :: "rat \<Rightarrow> jsnum" where
  "round_double x =
     (if x = 0 then Fin 0
      else
        let ulp = 2 powi (binade \<bar>x\<bar> - 52);
            r = of_int (round_half_even (\<bar>x\<bar> / ulp)) * ulp
        in if 2 ^ 1024 \<le> r then (if x < 0 then NInf else PInf)
           else Fin (if x < 0 then - r else r))"

text \<open>\<^verbatim>\<open>+\<close>, \<^verbatim>\<open>*\<close> and \<^verbatim>\<open>/\<close> (by a positive literal) of the engine: the
  exact result, rounded.\<close>

fun dadd :: "jsnum \<Rightarrow> jsnum \<Rightarrow> jsnum" where
  "dadd (Fin a) (Fin b) = round_double (a + b)"
| "dadd x y = jadd x y"

fun dmul :: "jsnum \<Rightarrow> jsnum \<Rightarrow> jsnum" where
  "dmul (Fin a) (Fin b) = round_double (a * b)"
| "dmul x y = jmul x y"

fun ddiv_lit :: "jsnum \<Rightarrow> rat \<Rightarrow> jsnum" where
  "ddiv_lit (Fin a) d = round_double (a / d)"
| "ddiv_lit x d = x"

subsection \<open>Strings\<close>

definition starts_with :: "string \<Rightarrow> string \<Rightarrow> bool" where
  "starts_with pat s \<longleftrightarrow> take (length pat) s = pat"

text \<open>\<^verbatim>\<open>s.includes(pat)\<close> and \<^verbatim>\<open>s.replace(pat, rep)\<close> for a string pattern: the
  first occurrence only. The replacement is a printed number here, so it holds none of the
  \<^verbatim>\<open>$\<close> patterns that \<^verbatim>\<open>replace\<close> would expand.\<close>

fun includes_str :: "string \<Rightarrow> string \<Rightarrow> bool" where
  "includes_str [] pat = (pat = [])"
| "includes_str (c # cs) pat = (starts_with pat (c # cs) \<or> includes_str cs pat)"

fun replace_first :: "string \<Rightarrow> string \<Rightarrow> string \<Rightarrow> string" where
  "replace_first [] pat rep = (if pat = [] then rep else [])"
| "replace_first (c # cs) pat rep =
     (if starts_with pat (c # cs) then rep @ drop (length pat) (c # cs)
      else c # replace_first cs pat rep)"

definition is_digit :: "char \<Rightarrow> bool" where
  "is_digit c \<longleftrightarrow> 48 \<le> (of_char c :: nat) \<and> (of_char c :: nat) \<le> 57"

text \<open>A string is the list of the bytes of its UTF-8 encoding. The white space that
  \<^verbatim>\<open>parseFloat\<close> skips: the length in bytes of the white-space character or line
  terminator at the head of a string, \<open>0\<close> when there is none. These are tab, line
  feed, vertical tab, form feed, carriage return and space, U+00A0, U+1680, U+2000 to
  U+200A, U+2028, U+2029, U+202F, U+205F, U+3000 and U+FEFF.\<close>

definition white_space_prefix :: "string \<Rightarrow> nat" where
  "white_space_prefix s =
     (case map of_char (take 3 s) :: nat list of
        [] \<Rightarrow> 0
      | b # bs \<Rightarrow>
          if b \<in> {9, 10, 11, 12, 13, 32} then 1
          else if b = 194 \<and> take 1 bs = [160] then 2
          else if b = 225 \<and> bs = [154, 128] then 3
          else if b = 226 \<and> length bs = 2 \<and> hd bs = 128
                  \<and> (128 \<le> last bs \<and> last bs \<le> 138 \<or> last bs \<in> {168, 169, 175}) then 3
          else if b = 226 \<and> bs = [129, 159] then 3
          else if b = 227 \<and> bs = [128, 128] then 3
          else if b = 239 \<and> bs = [187, 191] then 3
          else 0)"

function skip_white_space :: "string \<Rightarrow> string" where
  "skip_white_space s =
     (if white_space_prefix s = 0 then s
      else skip_white_space (drop (white_space_prefix s) s))"
  by pat_completeness auto
termination
proof (relation "measure length")
  fix s :: string
  assume n: "white_space_prefix s \<noteq> 0"
  then have "s \<noteq> []"
    by (auto simp: white_space_prefix_def)
  with n show "(drop (white_space_prefix s) s, s) \<in> measure length"
    by simp
qed simp

declare skip_white_space.simps [simp del]

definition digits_val :: "string \<Rightarrow> nat" where
  "digits_val ds = foldl (\<lambda>n c. 10 * n + (of_char c - 48)) 0 ds"

fun show_nat :: "nat \<Rightarrow> string" where
  "show_nat n =
     (if n < 10 then [char_of (48 + n)]
      else show_nat (n div 10) @ [char_of (48 + n mod 10)])"

definition show_int :: "int \<Rightarrow> string" where
  "show_int i = (if i < 0 then CHR ''-'' # show_nat (nat (- i)) else show_nat (nat i))"

subsection \<open>parseFloat and toNum\<close>

definition pow10 :: "int \<Rightarrow> rat" where
  "pow10 e = (if 0 \<le> e then 10 ^ nat e else 1 / 10 ^ nat (- e))"

text \<open>The exponent part that follows a mantissa, \<open>0\<close> when there is none: an
  \<^verbatim>\<open>e\<close> or \<^verbatim>\<open>E\<close>, an optional sign and at least one digit.\<close>

definition parse_exponent :: "string \<Rightarrow> int" where
  "parse_exponent r =
     (case r of
        [] \<Rightarrow> 0
      | c # r1 \<Rightarrow>
          if c = CHR ''e'' \<or> c = CHR ''E'' then
            (case r1 of
               [] \<Rightarrow> 0
             | d # r2 \<Rightarrow>
                 if d = CHR ''+'' then int (digits_val (takeWhile is_digit r2))
                 else if d = CHR ''-'' then - int (digits_val (takeWhile is_digit r2))
                 else int (digits_val (takeWhile is_digit r1)))
          else 0)"

text \<open>The longest prefix that is an unsigned decimal literal: \<^verbatim>\<open>Infinity\<close>, or
  digits with an optional fraction, or a fraction alone, each with an optional exponent.
  No such prefix gives NaN. The number read is the double nearest to the decimal, an
  infinity when that is too large.\<close>

definition parse_unsigned :: "string \<Rightarrow> jsnum" where
  "parse_unsigned s =
     (if starts_with ''Infinity'' s then PInf
      else
        let ip = takeWhile is_digit s;
            r1 = dropWhile is_digit s;
            has_dot = (r1 \<noteq> [] \<and> hd r1 = CHR ''.'');
            fp = (if has_dot then takeWhile is_digit (tl r1) else []);
            r2 = (if has_dot then dropWhile is_digit (tl r1) else r1)
        in if ip = [] \<and> fp = [] then NaN
           else round_double (of_nat (digits_val (ip @ fp))
                              * pow10 (parse_exponent r2 - int (length fp))))"

definition parseFloat :: "string \<Rightarrow> jsnum" where
  "parseFloat s =
     (case skip_white_space s of
        [] \<Rightarrow> NaN
      | c # r \<Rightarrow>
          if c = CHR ''-'' then jneg (parse_unsigned r)
          else if c = CHR ''+'' then parse_unsigned r
          else parse_unsigned (c # r))"

text \<open>\<^verbatim>\<open>parseFloat(String(v ?? ''))\<close>. A number prints to a string that parses
  back to the same number, and \<^verbatim>\<open>NaN\<close> and the infinities print to their names.\<close>

fun parseFloat_String :: "jsany \<Rightarrow> jsnum" where
  "parseFloat_String JUndefined = parseFloat ''''"
| "parseFloat_String JNull = parseFloat ''''"
| "parseFloat_String (JBool b) = parseFloat (if b then ''true'' else ''false'')"
| "parseFloat_String (JNum n) = n"
| "parseFloat_String (JStr s) = parseFloat s"

text \<open>\<^verbatim>\<open>toNum(v, fb)\<close>; the fallback is \<open>0\<close> at every call of the source.\<close>

definition toNum :: "jsany \<Rightarrow> rat \<Rightarrow> rat" where
  "toNum v fb = (case parseFloat_String v of Fin n \<Rightarrow> n | _ \<Rightarrow> fb)"

text \<open>The decimal that \<^verbatim>\<open>x.toFixed(2)\<close> prints for a finite \<open>x\<close>:
  \<^verbatim>\<open>toFixed\<close> takes the integer \<open>n\<close> for which \<open>n / 100\<close> is nearest to the exact
  value of \<open>\<bar>x\<bar>\<close>, the larger one on a tie, keeps the sign of \<open>x\<close>, and from
  \<open>10\<^sup>2\<^sup>1\<close> on prints \<open>x\<close> as it is.\<close>

definition round2 :: "rat \<Rightarrow> rat" where
  "round2 x =
     (if 10 ^ 21 \<le> \<bar>x\<bar> then x
      else if x < 0 then - (of_int \<lfloor>\<bar>x\<bar> * 100 + 1 / 2\<rfloor> / 100)
      else of_int \<lfloor>\<bar>x\<bar> * 100 + 1 / 2\<rfloor> / 100)"

text \<open>\<^verbatim>\<open>Number(x.toFixed(2))\<close>: the double nearest to the printed decimal; a number
  from \<open>10\<^sup>2\<^sup>1\<close> on, \<open>NaN\<close> and the infinities print to what reads back as
  themselves.\<close>

definition number_toFixed2 :: "jsnum \<Rightarrow> jsnum" where
  "number_toFixed2 v =
     (case v of
        Fin x \<Rightarrow> if 10 ^ 21 \<le> \<bar>x\<bar> then Fin x else round_double (round2 x)
      | _ \<Rightarrow> v)"

subsection \<open>The host\<close>

text \<open>Two builtins are parameters of the model: \<^verbatim>\<open>eval\<close> (\<open>None\<close> when it throws;
  the source takes its result for a number) and the printing of a number
  (\<^verbatim>\<open>Number.prototype.toString\<close>).\<close>

record js_host =
  js_eval :: "string \<Rightarrow> jsnum option"
  js_numToString :: "jsnum \<Rightarrow> string"

text \<open>\<^verbatim>\<open>x.toFixed(2)\<close>, the string.\<close>

definition toFixed2 :: "js_host \<Rightarrow> jsnum \<Rightarrow> string" where
  "toFixed2 h v =
     (case v of
        NaN \<Rightarrow> ''NaN''
      | PInf \<Rightarrow> ''Infinity''
      | NInf \<Rightarrow> ''-Infinity''
      | Fin x \<Rightarrow>
          if 10 ^ 21 \<le> \<bar>x\<bar> then js_numToString h (Fin x)
          else
            let n = nat \<lfloor>\<bar>x\<bar> * 100 + 1 / 2\<rfloor>
            in (if x < 0 then ''-'' else [])
               @ show_nat (n div 100) @ ''.''
               @ [char_of (48 + (n mod 100) div 10), char_of (48 + n mod 10)])"

subsection \<open>Data\<close>

text \<open>Fields carry the source's names; where two interfaces share a name (\<^verbatim>\<open>id\<close>,
  \<^verbatim>\<open>enabled\<close>, \<^verbatim>\<open>title\<close>, \<^verbatim>\<open>total\<close>) or the name is taken in Isabelle
  (\<^verbatim>\<open>class\<close>, \<^verbatim>\<open>method\<close>), a prefix tells them apart. Fields that no computation reads (size, colour, image, addresses of a
  tax rate, the settings of a gateway) are left out.\<close>

record CartItem =
  item_id :: string
  item_name :: string
  price :: rat
  originalPrice :: rat
  quantity :: rat
  tax_class :: "string option"
  tax_status :: "string option"
  payment_methods :: "string list option"

record AppliedCouponMeta =
  code :: string
  amount :: string
  discount_type :: string

record ShippingMethod =
  sm_id :: int
  instance_id :: int
  sm_enabled :: bool
  method_id :: string
  settings_title_value :: string
  settings_tax_status_value :: string
  settings_cost_value :: string

record ShippingLine =
  sl_id :: int
  sl_method_title :: string
  sl_method_id :: string
  sl_instance_id :: string
  sl_total :: string
  sl_total_tax :: string
  sl_tax_status :: string

record TaxRate =
  rate_id :: int
  rate :: string
  rate_name :: string
  compound :: bool
  shipping :: bool
  rate_class :: string

text \<open>The numbers of a tax line and of a tax calculation have the type \<open>'n\<close>:
  \<open>rat\<close> where they are computed exactly, \<open>jsnum\<close> where they are computed as
  doubles.\<close>

record 'n TaxLine =
  line_id :: int
  rate_code :: string
  line_rate_id :: int
  label :: string
  line_compound :: bool
  line_tax_total :: 'n
  line_shipping_tax_total :: 'n
  rate_percent :: 'n
  line_tax_class :: string

record 'n TaxCalculation =
  tax_total :: 'n
  shipping_tax_total :: 'n
  tax_lines :: "'n TaxLine list"

record PaymentGateway =
  gw_id :: string
  gw_title :: string
  gw_enabled :: bool

record PaymentSelection =
  sel_method :: string
  gateway :: PaymentGateway
  description :: string

record GSTBreakdown =
  cgst :: jsnum
  sgst :: jsnum
  igst :: jsnum
  gst_total :: jsnum

subsection \<open>Coupons\<close>

definition calcCouponDiscount :: "jsnum \<Rightarrow> AppliedCouponMeta list \<Rightarrow> jsnum" where
  "calcCouponDiscount subtotal coupons =
     foldl (\<lambda>sum c.
        if discount_type c = ''percent'' then
          jadd sum (jdiv_lit (jmul subtotal (parseFloat (amount c))) 100)
        else if discount_type c = ''fixed_cart'' then
          jadd sum (parseFloat (amount c))
        else sum) (Fin 0) coupons"

subsection \<open>Shipping\<close>

definition calculateShippingCost :: "js_host \<Rightarrow> ShippingMethod \<Rightarrow> CartItem list \<Rightarrow> jsnum" where
  "calculateShippingCost h shippingMethod cartItems =
     (let costFormula = settings_cost_value shippingMethod in
      if includes_str costFormula ''[qty]'' then
        (let totalQuantity = foldl (\<lambda>sum item. sum + quantity item) 0 cartItems;
             baseCost = replace_first costFormula ''[qty]'' (js_numToString h (Fin totalQuantity))
         in case js_eval h baseCost of
              Some v \<Rightarrow> v
            | None \<Rightarrow> Fin (toNum (JStr (settings_cost_value shippingMethod)) 0))
      else if includes_str costFormula ''[cost]'' then
        (let totalCost = foldl (\<lambda>sum item. sum + price item * quantity item) 0 cartItems;
             baseCost = replace_first costFormula ''[cost]'' (js_numToString h (Fin totalCost))
         in case js_eval h baseCost of
              Some v \<Rightarrow> v
            | None \<Rightarrow> Fin (toNum (JStr (settings_cost_value shippingMethod)) 0))
      else Fin (toNum (JStr (settings_cost_value shippingMethod)) 0))"

definition calculateShippingLines ::
  "js_host \<Rightarrow> ShippingMethod list \<Rightarrow> CartItem list \<Rightarrow> ShippingLine list" where
  "calculateShippingLines h methods items =
     (if methods = [] \<or> items = [] then []
      else map (\<lambda>m.
             \<lparr> sl_id = sm_id m,
               sl_method_title = settings_title_value m,
               sl_method_id = method_id m,
               sl_instance_id = show_int (instance_id m),
               sl_total = toFixed2 h (calculateShippingCost h m items),
               sl_total_tax = ''0.00'',
               sl_tax_status = settings_tax_status_value m \<rparr>)
           (filter sm_enabled methods))"

definition selectDefaultFlatRateMethod ::
  "ShippingMethod list \<Rightarrow> CartItem list \<Rightarrow> ShippingMethod option" where
  "selectDefaultFlatRateMethod methods items =
     (if methods = [] then None
      else case find (\<lambda>m. method_id m = ''flat_rate'' \<and> sm_enabled m) methods of
             Some flatRateMethod \<Rightarrow> Some flatRateMethod
           | None \<Rightarrow> find sm_enabled methods)"

subsection \<open>Taxes\<close>

text \<open>\<^verbatim>\<open>itemsByTaxClass\<close> is an object used as a dictionary: its own properties in
  the order of their creation, each a subtotal and the items of the class. The functions
  of this subsection compute exactly and take every tax class for a key that the
  dictionary does not hold until it is written; the next subsection has the rounding and
  the names that every object inherits.\<close>

type_synonym tax_groups = "(string \<times> rat \<times> CartItem list) list"

text \<open>\<^verbatim>\<open>item.tax_class || 'standard'\<close>: a missing and an empty class are standard.\<close>

definition item_tax_class :: "CartItem \<Rightarrow> string" where
  "item_tax_class item =
     (case tax_class item of None \<Rightarrow> ''standard'' | Some c \<Rightarrow> if c = [] then ''standard'' else c)"

definition group_item :: "tax_groups \<Rightarrow> CartItem \<Rightarrow> tax_groups" where
  "group_item groups item =
     (let taxClass = item_tax_class item;
          groups1 = (if map_of groups taxClass = None then groups @ [(taxClass, 0, [])]
                     else groups)
      in map (\<lambda>(k, sub, its).
                if k = taxClass then (k, sub + price item * quantity item, its @ [item])
                else (k, sub, its)) groups1)"

definition itemsByTaxClass :: "CartItem list \<Rightarrow> tax_groups" where
  "itemsByTaxClass cartItems = foldl group_item [] cartItems"

text \<open>\<^verbatim>\<open>Object.entries\<close> lists the keys that are array indices first, in ascending
  numeric order, then the other keys in the order of their creation. An array index is the
  decimal numeral, without a leading zero, of an integer below \<open>2\<^sup>3\<^sup>2 - 1\<close>.\<close>

definition is_array_index :: "string \<Rightarrow> bool" where
  "is_array_index k \<longleftrightarrow>
     k \<noteq> [] \<and> list_all is_digit k \<and> (k = ''0'' \<or> hd k \<noteq> CHR ''0'')
     \<and> digits_val k < 2 ^ 32 - 1"

definition object_entries :: "(string \<times> 'a) list \<Rightarrow> (string \<times> 'a) list" where
  "object_entries props =
     sort_key (\<lambda>p. digits_val (fst p)) (filter (\<lambda>p. is_array_index (fst p)) props)
     @ filter (\<lambda>p. \<not> is_array_index (fst p)) props"

definition applicableRates :: "string \<Rightarrow> TaxRate list \<Rightarrow> TaxRate list" where
  "applicableRates taxClass taxRates =
     filter (\<lambda>r. rate_class r = taxClass \<or> (taxClass = ''standard'' \<and> rate_class r = []))
       taxRates"

definition item_tax_of :: "rat \<Rightarrow> TaxRate \<Rightarrow> rat" where
  "item_tax_of classSubtotal r = (classSubtotal * toNum (JStr (rate r)) 0) / 100"

definition shipping_tax_of :: "rat \<Rightarrow> TaxRate \<Rightarrow> rat" where
  "shipping_tax_of shippingTotal r =
     (if shipping r then (shippingTotal * toNum (JStr (rate r)) 0) / 100 else 0)"

definition tax_line_of :: "string \<Rightarrow> rat \<Rightarrow> rat \<Rightarrow> TaxRate \<Rightarrow> rat TaxLine" where
  "tax_line_of taxClass classSubtotal shippingTotal r =
     \<lparr> line_id = rate_id r,
       rate_code = ''TAX-'' @ show_int (rate_id r),
       line_rate_id = rate_id r,
       label = rate_name r,
       line_compound = compound r,
       line_tax_total = item_tax_of classSubtotal r,
       line_shipping_tax_total = shipping_tax_of shippingTotal r,
       rate_percent = toNum (JStr (rate r)) 0,
       line_tax_class = taxClass \<rparr>"

text \<open>The body of the inner loop: one rate of one class.\<close>

definition apply_rate ::
  "string \<Rightarrow> rat \<Rightarrow> rat \<Rightarrow> rat TaxCalculation \<Rightarrow> TaxRate \<Rightarrow> rat TaxCalculation" where
  "apply_rate taxClass classSubtotal shippingTotal acc r =
     \<lparr> tax_total = tax_total acc + item_tax_of classSubtotal r,
       shipping_tax_total = shipping_tax_total acc + shipping_tax_of shippingTotal r,
       tax_lines = tax_lines acc @ [tax_line_of taxClass classSubtotal shippingTotal r] \<rparr>"

text \<open>The body of the outer loop: one class with its subtotal.\<close>

definition apply_class ::
  "rat \<Rightarrow> TaxRate list \<Rightarrow> rat TaxCalculation \<Rightarrow> string \<times> rat \<times> CartItem list
   \<Rightarrow> rat TaxCalculation" where
  "apply_class shippingTotal taxRates acc entry =
     (case entry of (taxClass, classSubtotal, its) \<Rightarrow>
        foldl (apply_rate taxClass classSubtotal shippingTotal) acc
          (applicableRates taxClass taxRates))"

text \<open>The parameter \<^verbatim>\<open>subtotal\<close> is not read by the source either.\<close>

definition calculateTaxes ::
  "CartItem list \<Rightarrow> rat \<Rightarrow> rat \<Rightarrow> TaxRate list \<Rightarrow> rat TaxCalculation" where
  "calculateTaxes cartItems subtotal shippingTotal taxRates =
     foldl (apply_class shippingTotal taxRates)
       \<lparr> tax_total = 0, shipping_tax_total = 0, tax_lines = [] \<rparr>
       (object_entries (itemsByTaxClass cartItems))"

subsection \<open>Taxes, on doubles\<close>

text \<open>\<^verbatim>\<open>calculateTaxes\<close> as the engine runs it. A property that the dictionary
  inherits is found by the lookup \<^verbatim>\<open>itemsByTaxClass[taxClass]\<close> although it was never
  written: for a tax class of such a name no entry is created,
  \<^verbatim>\<open>itemsByTaxClass[taxClass].items\<close> is undefined and the call of \<^verbatim>\<open>push\<close>
  throws a \<^verbatim>\<open>TypeError\<close>, which ends \<^verbatim>\<open>calculateTaxes\<close>. These are the
  properties of \<^verbatim>\<open>Object.prototype\<close>.\<close>

datatype js_error = TypeError

definition inherited_names :: "string list" where
  "inherited_names =
     [''constructor'', ''toString'', ''toLocaleString'', ''valueOf'', ''hasOwnProperty'',
      ''isPrototypeOf'', ''propertyIsEnumerable'', ''__proto__'', ''__defineGetter__'',
      ''__defineSetter__'', ''__lookupGetter__'', ''__lookupSetter__'']"

type_synonym tax_groups_ieee = "(string \<times> jsnum \<times> CartItem list) list"

definition group_item_ieee :: "tax_groups_ieee \<Rightarrow> CartItem \<Rightarrow> js_error + tax_groups_ieee" where
  "group_item_ieee groups item =
     (let taxClass = item_tax_class item in
      if taxClass \<in> set inherited_names then Inl TypeError
      else
        let groups1 = (if map_of groups taxClass = None then groups @ [(taxClass, Fin 0, [])]
                       else groups)
        in Inr (map (\<lambda>(k, sub, its).
                  if k = taxClass
                  then (k, dadd sub (dmul (Fin (price item)) (Fin (quantity item))), its @ [item])
                  else (k, sub, its)) groups1))"

text \<open>A \<^verbatim>\<open>forEach\<close> whose callback can throw: the loop ends at the first throw.\<close>

fun forEach_throwing :: "('b \<Rightarrow> 'a \<Rightarrow> js_error + 'b) \<Rightarrow> 'b \<Rightarrow> 'a list \<Rightarrow> js_error + 'b" where
  "forEach_throwing f acc [] = Inr acc"
| "forEach_throwing f acc (x # xs) =
     (case f acc x of Inl e \<Rightarrow> Inl e | Inr acc1 \<Rightarrow> forEach_throwing f acc1 xs)"

definition itemsByTaxClass_ieee :: "CartItem list \<Rightarrow> js_error + tax_groups_ieee" where
  "itemsByTaxClass_ieee cartItems = forEach_throwing group_item_ieee [] cartItems"

definition item_tax_ieee :: "jsnum \<Rightarrow> TaxRate \<Rightarrow> jsnum" where
  "item_tax_ieee classSubtotal r =
     ddiv_lit (dmul classSubtotal (Fin (toNum (JStr (rate r)) 0))) 100"

definition shipping_tax_ieee :: "jsnum \<Rightarrow> TaxRate \<Rightarrow> jsnum" where
  "shipping_tax_ieee shippingTotal r =
     (if shipping r then ddiv_lit (dmul shippingTotal (Fin (toNum (JStr (rate r)) 0))) 100
      else Fin 0)"

definition tax_line_ieee :: "string \<Rightarrow> jsnum \<Rightarrow> jsnum \<Rightarrow> TaxRate \<Rightarrow> jsnum TaxLine" where
  "tax_line_ieee taxClass classSubtotal shippingTotal r =
     \<lparr> line_id = rate_id r,
       rate_code = ''TAX-'' @ show_int (rate_id r),
       line_rate_id = rate_id r,
       label = rate_name r,
       line_compound = compound r,
       line_tax_total = item_tax_ieee classSubtotal r,
       line_shipping_tax_total = shipping_tax_ieee shippingTotal r,
       rate_percent = Fin (toNum (JStr (rate r)) 0),
       line_tax_class = taxClass \<rparr>"

definition apply_rate_ieee ::
  "string \<Rightarrow> jsnum \<Rightarrow> jsnum \<Rightarrow> jsnum TaxCalculation \<Rightarrow> TaxRate \<Rightarrow> jsnum TaxCalculation" where
  "apply_rate_ieee taxClass classSubtotal shippingTotal acc r =
     \<lparr> tax_total = dadd (tax_total acc) (item_tax_ieee classSubtotal r),
       shipping_tax_total = dadd (shipping_tax_total acc) (shipping_tax_ieee shippingTotal r),
       tax_lines = tax_lines acc @ [tax_line_ieee taxClass classSubtotal shippingTotal r] \<rparr>"

definition apply_class_ieee ::
  "jsnum \<Rightarrow> TaxRate list \<Rightarrow> jsnum TaxCalculation \<Rightarrow> string \<times> jsnum \<times> CartItem list
   \<Rightarrow> jsnum TaxCalculation" where
  "apply_class_ieee shippingTotal taxRates acc entry =
     (case entry of (taxClass, classSubtotal, its) \<Rightarrow>
        foldl (apply_rate_ieee taxClass classSubtotal shippingTotal) acc
          (applicableRates taxClass taxRates))"

definition calculateTaxes_ieee ::
  "CartItem list \<Rightarrow> jsnum \<Rightarrow> jsnum \<Rightarrow> TaxRate list \<Rightarrow> js_error + jsnum TaxCalculation" where
  "calculateTaxes_ieee cartItems subtotal shippingTotal taxRates =
     (case itemsByTaxClass_ieee cartItems of
        Inl e \<Rightarrow> Inl e
      | Inr groups \<Rightarrow>
          Inr (foldl (apply_class_ieee shippingTotal taxRates)
                 \<lparr> tax_total = Fin 0, shipping_tax_total = Fin 0, tax_lines = [] \<rparr>
                 (object_entries groups)))"

subsection \<open>GST breakdown\<close>

text \<open>The loop over the tax lines, on the pair of the two accumulators; \<^verbatim>\<open>igst\<close>
  stays \<open>0\<close>.\<close>

definition gst_step :: "jsnum \<times> jsnum \<Rightarrow> jsnum TaxLine \<Rightarrow> jsnum \<times> jsnum" where
  "gst_step acc taxLine =
     (case acc of (c, s) \<Rightarrow>
        let halfTax = ddiv_lit (line_tax_total taxLine) 2;
            c1 = dadd c halfTax;
            s1 = dadd s halfTax;
            halfShippingTax = ddiv_lit (line_shipping_tax_total taxLine) 2
        in (dadd c1 halfShippingTax, dadd s1 halfShippingTax))"

definition calculateGSTBreakdown :: "jsnum TaxCalculation option \<Rightarrow> GSTBreakdown" where
  "calculateGSTBreakdown taxCalculation =
     (case taxCalculation of
        None \<Rightarrow> \<lparr> cgst = Fin 0, sgst = Fin 0, igst = Fin 0, gst_total = Fin 0 \<rparr>
      | Some tc \<Rightarrow>
          (case foldl gst_step (Fin 0, Fin 0) (tax_lines tc) of (c, s) \<Rightarrow>
             \<lparr> cgst = number_toFixed2 c, sgst = number_toFixed2 s,
               igst = number_toFixed2 (Fin 0),
               gst_total = number_toFixed2 (dadd (dadd c s) (Fin 0)) \<rparr>))"

subsection \<open>Payment method\<close>

definition supports_cod :: "CartItem \<Rightarrow> bool" where
  "supports_cod item \<longleftrightarrow>
     (case payment_methods item of None \<Rightarrow> False | Some ms \<Rightarrow> ''cod'' \<in> set ms)
     \<or> payment_methods item = None
     \<or> (case payment_methods item of None \<Rightarrow> False | Some ms \<Rightarrow> length ms = 0)"

definition determinePaymentMethod ::
  "CartItem list \<Rightarrow> PaymentGateway list \<Rightarrow> PaymentSelection option" where
  "determinePaymentMethod cartItems paymentGateways =
     (let enabledGateways = filter gw_enabled paymentGateways;
          allProductsSupportCOD = list_all supports_cod cartItems;
          codGateway = find (\<lambda>g. gw_id g = ''cod'') enabledGateways;
          razorpayGateway = find (\<lambda>g. gw_id g = ''razorpay'') enabledGateways
      in case (if allProductsSupportCOD then codGateway else None) of
           Some g \<Rightarrow>
             Some \<lparr> sel_method = ''cod'', gateway = g,
                    description = ''Cash on delivery - Pay with cash upon delivery.'' \<rparr>
         | None \<Rightarrow>
             (case razorpayGateway of
                Some g \<Rightarrow>
                  Some \<lparr> sel_method = ''razorpay'', gateway = g,
                         description =
                           ''Credit Card/Debit Card/NetBanking - Secure online payment'' \<rparr>
              | None \<Rightarrow>
                  (case codGateway of
                     Some g \<Rightarrow>
                       Some \<lparr> sel_method = ''cod'', gateway = g,
                              description =
                                ''Cash on delivery - Pay with cash upon delivery.'' \<rparr>
                   | None \<Rightarrow> None)))"

subsection \<open>The state of the cart screen\<close>

text \<open>The state variables of the \<^verbatim>\<open>Cart\<close> component that the totals depend on. The
  busy flags and the visibility of the summary only steer the display.\<close>

record cart_state =
  cartItems :: "CartItem list"
  loading :: bool
  userId :: "int option"
  errorText :: string
  appliedCoupons :: "AppliedCouponMeta list"
  shippingMethods :: "ShippingMethod list"
  selectedShippingMethod :: "ShippingMethod option"
  shippingLines :: "ShippingLine list"
  taxRates :: "TaxRate list"
  taxCalculation :: "rat TaxCalculation option"
  paymentGateways :: "PaymentGateway list"
  selectedPaymentMethod :: "PaymentSelection option"

definition initial_state :: cart_state where
  "initial_state =
     \<lparr> cartItems = [], loading = True, userId = None, errorText = [],
       appliedCoupons = [], shippingMethods = [], selectedShippingMethod = None,
       shippingLines = [], taxRates = [], taxCalculation = None,
       paymentGateways = [], selectedPaymentMethod = None \<rparr>"

text \<open>The two reductions that the source writes out both in
  \<^verbatim>\<open>updateTaxCalculation\<close> and among the derived totals; the first one also as the
  engine runs it.\<close>

definition items_subtotal :: "CartItem list \<Rightarrow> rat" where
  "items_subtotal items = foldl (\<lambda>s it. s + price it * quantity it) 0 items"

definition items_subtotal_ieee :: "CartItem list \<Rightarrow> jsnum" where
  "items_subtotal_ieee items =
     foldl (\<lambda>s it. dadd s (dmul (Fin (price it)) (Fin (quantity it)))) (Fin 0) items"

definition lines_total :: "ShippingLine list \<Rightarrow> rat" where
  "lines_total lines = foldl (\<lambda>total line. total + toNum (JStr (sl_total line)) 0) 0 lines"

definition updateTaxCalculation ::
  "cart_state \<Rightarrow> CartItem list \<Rightarrow> ShippingLine list \<Rightarrow> TaxRate list \<Rightarrow> cart_state" where
  "updateTaxCalculation st items shippingL rates =
     (let subtotal = items_subtotal items;
          shippingTotal = lines_total shippingL
      in if length rates > 0
         then st\<lparr>taxCalculation := Some (calculateTaxes items subtotal shippingTotal rates)\<rparr>
         else st\<lparr>taxCalculation := None\<rparr>)"

subsubsection \<open>Derived totals\<close>

text \<open>The source's \<^verbatim>\<open>total\<close> is \<open>total_amount\<close> here.\<close>

definition subtotal :: "cart_state \<Rightarrow> rat" where
  "subtotal st = items_subtotal (cartItems st)"


definition shippingTotal :: "cart_state \<Rightarrow> rat" where
  "shippingTotal st = lines_total (shippingLines st)"

text \<open>\<^verbatim>\<open>taxCalculation?.tax_total || 0\<close>: a missing calculation and a zero give \<open>0\<close>.\<close>

definition itemTaxTotal :: "cart_state \<Rightarrow> rat" where
  "itemTaxTotal st =
     (case taxCalculation st of
        None \<Rightarrow> 0
      | Some tc \<Rightarrow> if tax_total tc = 0 then 0 else tax_total tc)"

definition shippingTaxTotal :: "cart_state \<Rightarrow> rat" where
  "shippingTaxTotal st =
     (case taxCalculation st of
        None \<Rightarrow> 0
      | Some tc \<Rightarrow> if shipping_tax_total tc = 0 then 0 else shipping_tax_total tc)"

definition totalTax :: "cart_state \<Rightarrow> rat" where
  "totalTax st = itemTaxTotal st + shippingTaxTotal st"


subsubsection \<open>Effects\<close>

text \<open>The two \<^verbatim>\<open>useEffect\<close> hooks. State updates made between two \<^verbatim>\<open>await\<close>s
  are committed together, and a hook runs after a commit that replaced one of its
  dependencies; what the hooks write is a dependency of neither.\<close>

definition tax_effect :: "cart_state \<Rightarrow> cart_state" where
  "tax_effect st =
     (if length (cartItems st) > 0 \<or> length (taxRates st) > 0 \<or> length (shippingLines st) > 0
      then updateTaxCalculation st (cartItems st) (shippingLines st) (taxRates st)
      else st)"

definition payment_effect :: "cart_state \<Rightarrow> cart_state" where
  "payment_effect st =
     (if length (cartItems st) > 0 \<and> length (paymentGateways st) > 0
      then st\<lparr>selectedPaymentMethod :=
                determinePaymentMethod (cartItems st) (paymentGateways st)\<rparr>
      else st)"

definition run_effects :: "cart_state \<Rightarrow> cart_state" where
  "run_effects st = payment_effect (tax_effect st)"

subsubsection \<open>Loading\<close>

text \<open>A remote list is \<open>None\<close> when its request throws or its response is not ok; each
  loader catches that and returns the empty list.\<close>

definition loadPaymentGateways :: "PaymentGateway list option \<Rightarrow> PaymentGateway list" where
  "loadPaymentGateways response = (case response of Some gateways \<Rightarrow> gateways | None \<Rightarrow> [])"

definition loadTaxRates :: "TaxRate list option \<Rightarrow> TaxRate list" where
  "loadTaxRates response = (case response of Some rates \<Rightarrow> rates | None \<Rightarrow> [])"

definition loadShippingMethods :: "ShippingMethod list option \<Rightarrow> ShippingMethod list" where
  "loadShippingMethods response =
     (case response of Some methods \<Rightarrow> filter sm_enabled methods | None \<Rightarrow> [])"

text \<open>What one run of \<^verbatim>\<open>loadCart\<close> receives. The session: \<open>None\<close> when the
  request throws, \<open>Some None\<close> when it holds no user. The three remote lists. The cart:
  \<open>None\<close> when the request for the customer throws, else the applied coupons of the
  customer with the items assembled from the cart entries and the product details, or with
  \<open>None\<close> when a request for a product throws.\<close>

record load_inputs =
  session_response :: "int option option"
  tax_rates_response :: "TaxRate list option"
  shipping_methods_response :: "ShippingMethod list option"
  payment_gateways_response :: "PaymentGateway list option"
  cart_response :: "(AppliedCouponMeta list \<times> CartItem list option) option"

text \<open>The \<^verbatim>\<open>catch\<close> and \<^verbatim>\<open>finally\<close> blocks of \<^verbatim>\<open>loadCart\<close>.\<close>

definition load_failed :: "cart_state \<Rightarrow> cart_state" where
  "load_failed st =
     run_effects
       (st\<lparr>errorText := ''Failed to load cart. Please try again.'',
           cartItems := [], loading := False\<rparr>)"

text \<open>The last stretch of \<^verbatim>\<open>loadCart\<close>, after the items are fetched.\<close>

definition load_totals ::
  "js_host \<Rightarrow> cart_state \<Rightarrow> CartItem list \<Rightarrow> ShippingMethod list \<Rightarrow> TaxRate list
   \<Rightarrow> PaymentGateway list \<Rightarrow> cart_state" where
  "load_totals h st fetched methods rates gateways =
     (let st1 = st\<lparr>cartItems := fetched\<rparr>;
          st2 =
            (if length methods > 0 \<and> length fetched > 0 then
               (let defaultMethod = selectDefaultFlatRateMethod methods fetched;
                    shippingData =
                      (case defaultMethod of
                         Some m \<Rightarrow> calculateShippingLines h [m] fetched
                       | None \<Rightarrow> [])
                in updateTaxCalculation
                     (st1\<lparr>selectedShippingMethod := defaultMethod,
                          shippingLines := shippingData\<rparr>)
                     fetched shippingData rates)
             else updateTaxCalculation st1 fetched [] rates)
      in st2\<lparr>selectedPaymentMethod := determinePaymentMethod fetched gateways\<rparr>)"

definition loadCart :: "js_host \<Rightarrow> cart_state \<Rightarrow> load_inputs \<Rightarrow> cart_state" where
  "loadCart h st inp =
     (let st0 = st\<lparr>loading := True, errorText := []\<rparr> in
      case session_response inp of
        None \<Rightarrow> load_failed st0
      | Some session \<Rightarrow>
          (case (case session of
                   None \<Rightarrow> None
                 | Some u \<Rightarrow> if u = 0 then None else Some u) of
             None \<Rightarrow>
               run_effects
                 (st0\<lparr>errorText := ''Please log in to view your cart.'',
                      cartItems := [], loading := False\<rparr>)
           | Some u \<Rightarrow>
               (let rates = loadTaxRates (tax_rates_response inp);
                    methods = loadShippingMethods (shipping_methods_response inp);
                    gateways = loadPaymentGateways (payment_gateways_response inp);
                    st1 = run_effects
                            (st0\<lparr>userId := Some u, taxRates := rates,
                                 shippingMethods := methods, paymentGateways := gateways\<rparr>)
                in case cart_response inp of
                     None \<Rightarrow> load_failed st1
                   | Some (coupons, None) \<Rightarrow> load_failed (st1\<lparr>appliedCoupons := coupons\<rparr>)
                   | Some (coupons, Some fetched) \<Rightarrow>
                       run_effects
                         ((load_totals h (st1\<lparr>appliedCoupons := coupons\<rparr>)
                             fetched methods rates gateways)\<lparr>loading := False\<rparr>))))"

subsubsection \<open>Changing the cart\<close>

definition updateShippingMethod :: "js_host \<Rightarrow> cart_state \<Rightarrow> ShippingMethod \<Rightarrow> cart_state" where
  "updateShippingMethod h st m =
     (let shippingData = calculateShippingLines h [m] (cartItems st)
      in tax_effect
           (updateTaxCalculation
              (st\<lparr>selectedShippingMethod := Some m, shippingLines := shippingData\<rparr>)
              (cartItems st) shippingData (taxRates st)))"

text \<open>\<^verbatim>\<open>updateCartMeta\<close>: \<open>remote_ok\<close> tells whether the update of the customer
  record succeeded. Nothing follows when there is no user or the update throws.\<close>

definition updateCartMeta :: "js_host \<Rightarrow> cart_state \<Rightarrow> CartItem list \<Rightarrow> bool \<Rightarrow> cart_state" where
  "updateCartMeta h st items remote_ok =
     (if userId st = None \<or> userId st = Some 0 then st
      else if \<not> remote_ok then st
      else
        (let st1 =
               (if length (shippingMethods st) > 0 then
                  (let defaultMethod = selectDefaultFlatRateMethod (shippingMethods st) items;
                       shippingData =
                         (case defaultMethod of
                            Some m \<Rightarrow> calculateShippingLines h [m] items
                          | None \<Rightarrow> [])
                   in tax_effect
                        (updateTaxCalculation
                           (st\<lparr>selectedShippingMethod := defaultMethod,
                               shippingLines := shippingData\<rparr>)
                           items shippingData (taxRates st)))
                else updateTaxCalculation st items [] (taxRates st))
         in st1\<lparr>selectedPaymentMethod := determinePaymentMethod items (paymentGateways st)\<rparr>))"

definition updateQuantity ::
  "js_host \<Rightarrow> cart_state \<Rightarrow> string \<Rightarrow> rat \<Rightarrow> bool \<Rightarrow> cart_state" where
  "updateQuantity h st ident qty remote_ok =
     (if qty < 1 then st
      else
        (let updated = map (\<lambda>it. if item_id it = ident then it\<lparr>quantity := qty\<rparr> else it)
                         (cartItems st)
         in updateCartMeta h (run_effects (st\<lparr>cartItems := updated\<rparr>)) updated remote_ok))"

definition removeItem :: "js_host \<Rightarrow> cart_state \<Rightarrow> string \<Rightarrow> bool \<Rightarrow> cart_state" where
  "removeItem h st ident remote_ok =
     (let updated = filter (\<lambda>it. item_id it \<noteq> ident) (cartItems st)
      in updateCartMeta h (run_effects (st\<lparr>cartItems := updated\<rparr>)) updated remote_ok)"

section \<open>What the specification says, in its own terms\<close>

text \<open>The definitions of this section are not translated from the source: they state
  the specification's formulas, against which the embedded functions are compared.\<close>

text \<open>A sum of numbers of the source's kind.\<close>

definition jsum :: "jsnum list \<Rightarrow> jsnum" where
  "jsum xs = foldr jadd xs (Fin 0)"

text \<open>The discount of one coupon: the percentage \<open>P\<close> of the subtotal, the fixed amount
  \<open>A\<close>, or nothing for any other type; \<open>P\<close> and \<open>A\<close> are what \<^verbatim>\<open>parseFloat\<close>
  reads from the coupon's amount.\<close>

definition coupon_discount_of :: "jsnum \<Rightarrow> AppliedCouponMeta \<Rightarrow> jsnum" where
  "coupon_discount_of sub c =
     (if discount_type c = ''percent'' then jmul sub (jdiv_lit (parseFloat (amount c)) 100)
      else if discount_type c = ''fixed_cart'' then parseFloat (amount c)
      else Fin 0)"

text \<open>The items of one tax class, their subtotal and the set of classes of a cart.\<close>

definition class_items :: "CartItem list \<Rightarrow> string \<Rightarrow> CartItem list" where
  "class_items items c = filter (\<lambda>it. item_tax_class it = c) items"

definition class_subtotal :: "CartItem list \<Rightarrow> string \<Rightarrow> rat" where
  "class_subtotal items c = (\<Sum>it\<leftarrow>class_items items c. price it * quantity it)"

definition tax_classes :: "CartItem list \<Rightarrow> string set" where
  "tax_classes items = item_tax_class ` set items"

text \<open>The classes in the order in which the outer loop of \<^verbatim>\<open>calculateTaxes\<close> meets
  them.\<close>

definition class_order :: "CartItem list \<Rightarrow> string list" where
  "class_order items = map fst (object_entries (itemsByTaxClass items))"

text \<open>The same for the calculator on doubles, in words that do not go through the
  embedded functions. The tax class that the specification gives an item: the item's own,
  and standard for an item without one (the field is missing or empty).\<close>

definition claimed_class :: "CartItem \<Rightarrow> string" where
  "claimed_class item =
     (if tax_class item = None \<or> tax_class item = Some [] then ''standard''
      else the (tax_class item))"

text \<open>A rate matches a class when its class equals it or, for the standard class, is the
  empty string.\<close>

definition rate_matches :: "string \<Rightarrow> TaxRate \<Rightarrow> bool" where
  "rate_matches c r \<longleftrightarrow> rate_class r = c \<or> (c = ''standard'' \<and> rate_class r = [])"

text \<open>A running total: from \<open>0\<close>, the numbers are added one after the other.\<close>

definition running_total :: "jsnum list \<Rightarrow> jsnum" where
  "running_total xs = foldl dadd (Fin 0) xs"

definition line_total :: "CartItem \<Rightarrow> jsnum" where
  "line_total item = dmul (Fin (price item)) (Fin (quantity item))"

definition claimed_class_subtotal :: "CartItem list \<Rightarrow> string \<Rightarrow> jsnum" where
  "claimed_class_subtotal items c =
     running_total (map line_total (filter (\<lambda>it. claimed_class it = c) items))"

definition claimed_group :: "CartItem list \<Rightarrow> string \<Rightarrow> string \<times> jsnum \<times> CartItem list" where
  "claimed_group items c =
     (c, claimed_class_subtotal items c, filter (\<lambda>it. claimed_class it = c) items)"

text \<open>The classes of a cart, each once, in the order in which the calculator visits them:
  the order of their first items, but the classes whose names are array indices come first,
  in ascending order.\<close>

definition first_occurrences :: "'a list \<Rightarrow> 'a list" where
  "first_occurrences xs = rev (remdups (rev xs))"

definition index_keys_first :: "string list \<Rightarrow> string list" where
  "index_keys_first ks =
     sort_key digits_val (filter is_array_index ks) @ filter (\<lambda>k. \<not> is_array_index k) ks"

definition claimed_classes :: "CartItem list \<Rightarrow> string list" where
  "claimed_classes items = index_keys_first (first_occurrences (map claimed_class items))"

text \<open>The matching pairs of a class and a rate, and what one pair adds to the tax total
  and to the shipping tax total, with its tax line.\<close>

definition claimed_pairs :: "CartItem list \<Rightarrow> TaxRate list \<Rightarrow> (string \<times> TaxRate) list" where
  "claimed_pairs items rates =
     concat (map (\<lambda>c. map (Pair c) (filter (rate_matches c) rates)) (claimed_classes items))"

definition claimed_item_tax :: "CartItem list \<Rightarrow> string \<times> TaxRate \<Rightarrow> jsnum" where
  "claimed_item_tax items p =
     ddiv_lit (dmul (claimed_class_subtotal items (fst p)) (Fin (toNum (JStr (rate (snd p))) 0)))
       100"

definition claimed_shipping_tax :: "jsnum \<Rightarrow> string \<times> TaxRate \<Rightarrow> jsnum" where
  "claimed_shipping_tax sh p =
     (if shipping (snd p) then ddiv_lit (dmul sh (Fin (toNum (JStr (rate (snd p))) 0))) 100
      else Fin 0)"

definition claimed_tax_line :: "CartItem list \<Rightarrow> jsnum \<Rightarrow> string \<times> TaxRate \<Rightarrow> jsnum TaxLine" where
  "claimed_tax_line items sh p =
     \<lparr> line_id = rate_id (snd p),
       rate_code = ''TAX-'' @ show_int (rate_id (snd p)),
       line_rate_id = rate_id (snd p),
       label = rate_name (snd p),
       line_compound = compound (snd p),
       line_tax_total = claimed_item_tax items p,
       line_shipping_tax_total = claimed_shipping_tax sh p,
       rate_percent = Fin (toNum (JStr (rate (snd p))) 0),
       line_tax_class = fst p \<rparr>"

text \<open>A tax class that is the name of a property that every object inherits.\<close>

definition inherited_class :: "CartItem \<Rightarrow> bool" where
  "inherited_class item \<longleftrightarrow> claimed_class item \<in> set inherited_names"

text \<open>A cart of whole numbers: every price and quantity is an integer, and the absolute
  line totals add up to less than \<open>2\<^sup>5\<^sup>3\<close>.\<close>

definition whole_number :: "rat \<Rightarrow> bool" where
  "whole_number x \<longleftrightarrow> of_int \<lfloor>x\<rfloor> = x"

definition whole_number_cart :: "CartItem list \<Rightarrow> bool" where
  "whole_number_cart items \<longleftrightarrow>
     list_all (\<lambda>it. whole_number (price it) \<and> whole_number (quantity it)) items
     \<and> (\<Sum>it\<leftarrow>items. \<bar>price it * quantity it\<bar>) < 2 ^ 53"

text \<open>The rounding of a number to two decimal places: the multiple of \<open>1 / 100\<close> nearest
  to it, of the two nearest ones the one farther from zero.\<close>

definition two_decimals_of :: "rat \<Rightarrow> rat \<Rightarrow> bool" where
  "two_decimals_of x d \<longleftrightarrow>
     of_int \<lfloor>d * 100\<rfloor> = d * 100
     \<and> (\<bar>d - x\<bar> < 1 / 200 \<or> \<bar>d - x\<bar> = 1 / 200 \<and> \<bar>x\<bar> < \<bar>d\<bar>)"

text \<open>The first enabled gateway of a given id, and the two selections.\<close>

definition enabled_gateway :: "string \<Rightarrow> PaymentGateway list \<Rightarrow> PaymentGateway option" where
  "enabled_gateway ident gateways = find (\<lambda>g. gw_enabled g \<and> gw_id g = ident) gateways"

definition cod_selection :: "PaymentGateway \<Rightarrow> PaymentSelection" where
  "cod_selection g =
     \<lparr> sel_method = ''cod'', gateway = g,
       description = ''Cash on delivery - Pay with cash upon delivery.'' \<rparr>"

definition online_selection :: "PaymentGateway \<Rightarrow> PaymentSelection" where
  "online_selection g =
     \<lparr> sel_method = ''razorpay'', gateway = g,
       description = ''Credit Card/Debit Card/NetBanking - Secure online payment'' \<rparr>"

text \<open>An item supports cash on delivery, or declares no restriction.\<close>

definition cod_capable :: "CartItem \<Rightarrow> bool" where
  "cod_capable item \<longleftrightarrow>
     (case payment_methods item of None \<Rightarrow> True | Some ms \<Rightarrow> ms = [] \<or> ''cod'' \<in> set ms)"

text \<open>What each of the two GST accumulators holds after the loop: from \<open>0\<close>, half of
  each line's item tax and then half of its shipping tax are added, line after line.\<close>

definition gst_half_sum :: "jsnum TaxLine list \<Rightarrow> jsnum" where
  "gst_half_sum ls =
     foldl (\<lambda>a l. dadd (dadd a (ddiv_lit (line_tax_total l) 2))
                     (ddiv_lit (line_shipping_tax_total l) 2)) (Fin 0) ls"

text \<open>An amount that is not negative.\<close>

fun non_negative :: "jsnum \<Rightarrow> bool" where
  "non_negative (Fin a) = (0 \<le> a)"
| "non_negative PInf = True"
| "non_negative _ = False"

subsection \<open>Sample data\<close>

definition sample_item :: CartItem where
  "sample_item =
     \<lparr> item_id = ''101'', item_name = ''Lamp'', price = 1000, originalPrice = 1200,
       quantity = 1, tax_class = None, tax_status = Some ''taxable'',
       payment_methods = Some [''cod'', ''razorpay''] \<rparr>"

definition reduced_item :: CartItem where
  "reduced_item =
     \<lparr> item_id = ''102'', item_name = ''Book'', price = 250, originalPrice = 250,
       quantity = 2, tax_class = Some ''reduced-rate'', tax_status = Some ''taxable'',
       payment_methods = None \<rparr>"

definition prepaid_item :: CartItem where
  "prepaid_item =
     \<lparr> item_id = ''103'', item_name = ''Voucher'', price = 500, originalPrice = 500,
       quantity = 1, tax_class = Some [], tax_status = Some ''taxable'',
       payment_methods = Some [''razorpay''] \<rparr>"

definition gst18 :: TaxRate where
  "gst18 =
     \<lparr> rate_id = 1, rate = ''18.0000'', rate_name = ''GST'', compound = False,
       shipping = True, rate_class = [] \<rparr>"

definition reduced5 :: TaxRate where
  "reduced5 =
     \<lparr> rate_id = 2, rate = ''5'', rate_name = ''GST 5'', compound = False,
       shipping = False, rate_class = ''reduced-rate'' \<rparr>"

definition broken_rate :: TaxRate where
  "broken_rate =
     \<lparr> rate_id = 3, rate = ''n/a'', rate_name = ''Cess'', compound = False,
       shipping = True, rate_class = ''standard'' \<rparr>"

definition cod_gateway :: PaymentGateway where
  "cod_gateway = \<lparr> gw_id = ''cod'', gw_title = ''Cash on delivery'', gw_enabled = True \<rparr>"

definition razorpay_gateway :: PaymentGateway where
  "razorpay_gateway = \<lparr> gw_id = ''razorpay'', gw_title = ''Razorpay'', gw_enabled = True \<rparr>"

text \<open>A host whose \<^verbatim>\<open>eval\<close> always throws.\<close>

definition silent_host :: js_host where
  "silent_host = \<lparr> js_eval = (\<lambda>s. None), js_numToString = (\<lambda>n. []) \<rparr>"

definition flat_rate_method :: "string \<Rightarrow> ShippingMethod" where
  "flat_rate_method cost =
     \<lparr> sm_id = 7, instance_id = 3, sm_enabled = True, method_id = ''flat_rate'',
       settings_title_value = ''Flat rate'', settings_tax_status_value = ''taxable'',
       settings_cost_value = cost \<rparr>"

definition sample_state :: cart_state where
  "sample_state =
     initial_state\<lparr>cartItems := [sample_item, reduced_item], loading := False,
                   userId := Some 12\<rparr>"

text \<open>An item of 1.20: the price is the double that \<^verbatim>\<open>toNum\<close> reads from
  \<^verbatim>\<open>1.20\<close>.\<close>

definition small_item :: CartItem where
  "small_item =
     \<lparr> item_id = ''104'', item_name = ''Pin'',
       price = 5404319552844595 / 4503599627370496,
       originalPrice = 5404319552844595 / 4503599627370496,
       quantity = 1, tax_class = None, tax_status = Some ''taxable'',
       payment_methods = None \<rparr>"

text \<open>Items of 0.10, 0.20 and 0.30, the prices again as \<^verbatim>\<open>toNum\<close> reads them.\<close>

definition priced_item :: "string \<Rightarrow> rat \<Rightarrow> CartItem" where
  "priced_item ident p =
     \<lparr> item_id = ident, item_name = ''Sweet'', price = p, originalPrice = p,
       quantity = 1, tax_class = None, tax_status = Some ''taxable'',
       payment_methods = None \<rparr>"

definition item_010 :: CartItem where
  "item_010 = priced_item ''105'' (3602879701896397 / 36028797018963968)"

definition item_020 :: CartItem where
  "item_020 = priced_item ''106'' (3602879701896397 / 18014398509481984)"

definition item_030 :: CartItem where
  "item_030 = priced_item ''107'' (5404319552844595 / 18014398509481984)"

definition odd_item :: CartItem where
  "odd_item =
     \<lparr> item_id = ''108'', item_name = ''Mug'', price = 199, originalPrice = 199,
       quantity = 1, tax_class = Some ''reduced-rate'', tax_status = Some ''taxable'',
       payment_methods = None \<rparr>"

text \<open>An item of a tax class named \<^verbatim>\<open>constructor\<close>.\<close>

definition constructor_item :: CartItem where
  "constructor_item =
     \<lparr> item_id = ''109'', item_name = ''Kit'', price = 1000, originalPrice = 1000,
       quantity = 1, tax_class = Some ''constructor'', tax_status = Some ''taxable'',
       payment_methods = None \<rparr>"

definition ten_rate :: TaxRate where
  "ten_rate =
     \<lparr> rate_id = 5, rate = ''10'', rate_name = ''Levy'', compound = False,
       shipping = False, rate_class = [] \<rparr>"

definition one_percent :: TaxRate where
  "one_percent =
     \<lparr> rate_id = 4, rate = ''1'', rate_name = ''Cess'', compound = False,
       shipping = False, rate_class = ''standard'' \<rparr>"




definition good_inputs :: load_inputs where
  "good_inputs =
     \<lparr> session_response = Some (Some 12),
       tax_rates_response = Some [gst18],
       shipping_methods_response = Some [flat_rate_method ''50.00''],
       payment_gateways_response = Some [cod_gateway, razorpay_gateway],
       cart_response = Some ([], Some [sample_item]) \<rparr>"

section \<open>Properties\<close>

subsection \<open>Arithmetic of the source's numbers\<close>

lemma jadd_zero_right: "jadd x (Fin 0) = x"
  by (cases x) simp_all

lemma jadd_zero_left: "jadd (Fin 0) x = x"
  by (cases x) simp_all

lemma jadd_assoc: "jadd (jadd x y) z = jadd x (jadd y z)"
  by (cases x; cases y; cases z) simp_all

lemma jmul_jdiv_lit: "0 < d \<Longrightarrow> jdiv_lit (jmul x y) d = jmul x (jdiv_lit y d)"
  by (cases x; cases y) (simp_all add: inf_times_def zero_less_divide_iff)

lemma foldl_jadd_jsum: "foldl (\<lambda>s c. jadd s (g c)) a cs = jadd a (jsum (map g cs))"
  by (induction cs arbitrary: a) (simp_all add: jsum_def jadd_zero_right jadd_assoc)

lemma floor_rat_divide_numeral:
  "\<lfloor>numeral a / numeral b :: rat\<rfloor> = numeral a div numeral b"
  by (metis floor_divide_of_int_eq of_int_numeral)

lemma floor_rat_one_divide_numeral:
  "\<lfloor>1 / numeral b :: rat\<rfloor> = 1 div numeral b"
  by (metis floor_divide_of_int_eq of_int_1 of_int_numeral)

subsection \<open>Rounding to a double\<close>

lemma binade_below_spec:
  "- 1022 \<le> binade_below k a \<and> binade_below k a \<le> int k - 1022
   \<and> (binade_below k a = - 1022 \<or> 2 powi (binade_below k a) \<le> a)
   \<and> (\<forall>e. binade_below k a < e \<and> e \<le> int k - 1022 \<longrightarrow> a < 2 powi e)"
proof (induction k)
  case 0
  show ?case by simp
next
  case (Suc k)
  show ?case
  proof (cases "2 powi (int k - 1021) \<le> a")
    case True
    then show ?thesis by simp
  next
    case False
    have "a < 2 powi e" if "binade_below k a < e" "e \<le> int (Suc k) - 1022" for e
    proof (cases "e \<le> int k - 1022")
      case True
      with that Suc.IH show ?thesis by blast
    next
      case False
      with that have "e = int k - 1021" by simp
      with \<open>\<not> 2 powi (int k - 1021) \<le> a\<close> show ?thesis by simp
    qed
    with False Suc.IH show ?thesis by auto
  qed
qed

lemma powi2_mono: "e \<le> e' \<Longrightarrow> (2::rat) powi e \<le> 2 powi e'"
  by (rule power_int_increasing) simp_all

lemma powi2_pos: "0 < (2::rat) powi e"
  by (simp add: zero_less_power_int)

lemma binade_unique:
  assumes "- 1022 \<le> e" "e \<le> 1023" "2 powi e \<le> a" "a < 2 powi (e + 1)"
  shows "binade a = e"
proof -
  note S = binade_below_spec [of 2045 a, folded binade_def]
  have "\<not> binade a < e"
  proof
    assume "binade a < e"
    with S assms(2) have "a < 2 powi e" by simp
    with assms(3) show False by simp
  qed
  moreover have "\<not> e < binade a"
  proof
    assume lt: "e < binade a"
    with assms(1) S have "2 powi (binade a) \<le> a" by auto
    moreover from lt have "(2::rat) powi (e + 1) \<le> 2 powi (binade a)"
      by (intro powi2_mono) simp
    ultimately show False using assms(4) by simp
  qed
  ultimately show ?thesis by simp
qed

lemma binade_range: "- 1022 \<le> binade a \<and> binade a \<le> 1023"
  using binade_below_spec [of 2045 a, folded binade_def] by simp

lemma binade_lower: "2 powi (- 1022) \<le> a \<Longrightarrow> 2 powi (binade a) \<le> a"
  using binade_below_spec [of 2045 a, folded binade_def] by auto

lemma binade_upper: "a < 2 ^ 1024 \<Longrightarrow> a < 2 powi (binade a + 1)"
proof -
  assume a: "a < 2 ^ 1024"
  note S = binade_below_spec [of 2045 a, folded binade_def]
  show ?thesis
  proof (cases "binade a = 1023")
    case True
    with a show ?thesis by simp
  next
    case False
    with S have "binade a < binade a + 1 \<and> binade a + 1 \<le> int 2045 - 1022" by simp
    with S show ?thesis by blast
  qed
qed


lemma binade_subnormal: "a < 2 powi (- 1022) \<Longrightarrow> binade a = - 1022"
proof -
  assume a: "a < 2 powi (- 1022)"
  note S = binade_below_spec [of 2045 a, folded binade_def]
  show ?thesis
  proof (rule ccontr)
    assume n: "binade a \<noteq> - 1022"
    with S have "2 powi (binade a) \<le> a" by blast
    moreover from S have "(2::rat) powi (- 1022) \<le> 2 powi (binade a)"
      by (intro powi2_mono) simp
    ultimately show False using a by simp
  qed
qed

lemma round_half_even_of_int: "round_half_even (of_int n) = n"
  by (simp add: round_half_even_def)

lemma round_half_even_bounds: "\<lfloor>q\<rfloor> \<le> round_half_even q \<and> round_half_even q \<le> \<lfloor>q\<rfloor> + 1"
  by (simp add: round_half_even_def)

lemma round_half_even_nonneg: "0 \<le> q \<Longrightarrow> 0 \<le> round_half_even q"
  using round_half_even_bounds [of q] by (smt (verit) zero_le_floor)

lemma round_half_even_near: "\<bar>of_int (round_half_even q) - q\<bar> \<le> 1 / 2"
  unfolding round_half_even_def by (auto simp: abs_if) linarith+

lemma round_double_minus: "round_double (- x) = (case round_double x of Fin r \<Rightarrow> Fin (- r) | NaN \<Rightarrow> NaN | PInf \<Rightarrow> NInf | NInf \<Rightarrow> PInf)"
  by (simp add: round_double_def Let_def)

lemma round_double_normal:
  assumes "0 < a" "- 1022 \<le> e" "e \<le> 1022" "2 powi e \<le> a" "a < 2 powi (e + 1)"
  shows "round_double a
           = Fin (of_int (round_half_even (a / 2 powi (e - 52))) * 2 powi (e - 52))"
proof -
  have b: "binade \<bar>a\<bar> = e"
    using assms by (intro binade_unique) simp_all
  let ?u = "(2::rat) powi (e - 52)"
  have u: "0 < ?u" by (rule powi2_pos)
  have "a / ?u < 2 powi (e + 1) / ?u"
    using assms(5) u by (simp add: divide_strict_right_mono)
  also have "2 powi (e + 1) / ?u = (2::rat) powi 53"
    by (simp add: power_int_diff [symmetric])
  finally have "a / ?u < of_int (2 ^ 53)" by simp
  then have "\<lfloor>a / ?u\<rfloor> < 2 ^ 53"
    by (simp only: floor_less_iff)
  then have "round_half_even (a / ?u) \<le> 2 ^ 53"
    using round_half_even_bounds [of "a / ?u"] by linarith
  then have "(of_int (round_half_even (a / ?u)) :: rat) \<le> of_int (2 ^ 53)"
    by (simp only: of_int_le_iff)
  then have "(of_int (round_half_even (a / ?u)) :: rat) \<le> 2 ^ 53"
    by simp
  then have "of_int (round_half_even (a / ?u)) * ?u \<le> 2 ^ 53 * ?u"
    using u by (simp add: mult_right_mono)
  also have "2 ^ 53 * ?u = (2::rat) powi (e + 1)"
  proof -
    have "(2::rat) powi 53 * 2 powi (e - 52) = 2 powi (53 + (e - 52))"
      by (rule power_int_add [symmetric]) simp
    moreover have "53 + (e - 52) = e + 1" by simp
    moreover have "(2::rat) powi 53 = 2 ^ 53" by (rule power_int_numeral)
    ultimately show ?thesis by (simp only:)
  qed
  also have "\<dots> \<le> 2 powi 1023"
    using assms(3) by (intro powi2_mono) simp
  also have "\<dots> < (2::rat) ^ 1024" by simp
  finally have "\<not> 2 ^ 1024 \<le> of_int (round_half_even (a / ?u)) * ?u" by simp
  with assms(1) b show ?thesis
    by (simp add: round_double_def Let_def)
qed

lemma round_double_exact:
  assumes "x = of_int m * 2 powi j" "\<bar>m\<bar> < 2 ^ 53" "- 1074 \<le> j" "\<bar>x\<bar> < 2 ^ 1024"
  shows "round_double x = Fin x"
proof (cases "x = 0")
  case True
  then show ?thesis by (simp add: round_double_def)
next
  case False
  let ?a = "\<bar>x\<bar>"
  let ?e = "binade ?a"
  let ?u = "(2::rat) powi (?e - 52)"
  have a: "?a = of_int \<bar>m\<bar> * 2 powi j"
    using assms(1) by (simp add: abs_mult power_int_abs)
  have le: "?e - 52 \<le> j"
  proof (cases "2 powi (- 1022) \<le> ?a")
    case True
    then have "2 powi ?e \<le> ?a" by (rule binade_lower)
    also have "?a < 2 ^ 53 * 2 powi j"
      unfolding a using assms(2) powi2_pos [of j]
      by (intro mult_strict_right_mono) (metis of_int_less_iff of_int_numeral of_int_power, simp)
    also have "\<dots> = (2::rat) powi (j + 53)"
      by (simp add: power_int_add flip: power_int_numeral)
    finally have lt: "(2::rat) powi ?e < 2 powi (j + 53)" .
    have "?e < j + 53"
    proof (rule ccontr)
      assume "\<not> ?e < j + 53"
      then have "(2::rat) powi (j + 53) \<le> 2 powi ?e"
        by (intro powi2_mono) simp
      with lt show False by simp
    qed
    then show ?thesis by simp
  next
    case False
    then have "?e = - 1022" by (intro binade_subnormal) simp
    with assms(3) show ?thesis by simp
  qed
  then obtain k where k: "j - (?e - 52) = int k"
    by (metis diff_ge_0_iff_ge nonneg_int_cases)
  have "?a / ?u = of_int \<bar>m\<bar> * (2 powi j / ?u)"
    by (simp only: a times_divide_eq_right)
  also have "2 powi j / ?u = (2::rat) powi (j - (?e - 52))"
    by (rule power_int_diff [symmetric]) simp
  also have "of_int \<bar>m\<bar> * (2::rat) powi (j - (?e - 52)) = of_int (\<bar>m\<bar> * 2 ^ k)"
    by (simp only: k power_int_of_nat) simp
  finally have q: "?a / ?u = of_int (\<bar>m\<bar> * 2 ^ k)" .
  have "round_half_even (?a / ?u) = \<bar>m\<bar> * 2 ^ k"
    by (simp only: q round_half_even_of_int)
  then have "of_int (round_half_even (?a / ?u)) * ?u = ?a / ?u * ?u"
    by (simp only: q)
  also have "\<dots> = ?a" using powi2_pos [of "?e - 52"] by simp
  finally have r: "of_int (round_half_even (?a / ?u)) * ?u = ?a" .
  from False assms(4) show ?thesis
    unfolding round_double_def Let_def r by (simp add: abs_if)
qed

lemma round_double_overflow:
  assumes "2 ^ 1024 \<le> a"
  shows "round_double a = PInf"
proof -
  have pos: "0 < a"
    using assms by (rule less_le_trans [rotated]) simp
  have "binade a = 1023"
  proof (rule ccontr)
    note S = binade_below_spec [of 2045 a, folded binade_def]
    assume "binade a \<noteq> 1023"
    with S have lt: "binade a < 1023" by simp
    from S have "\<forall>e. binade a < e \<and> e \<le> int 2045 - 1022 \<longrightarrow> a < 2 powi e"
      by blast
    then have "binade a < 1023 \<and> 1023 \<le> int 2045 - 1022 \<longrightarrow> a < 2 powi 1023"
      by (rule spec)
    with lt have "a < 2 powi 1023" by simp
    also have "\<dots> < (2::rat) ^ 1024" by simp
    finally show False using assms by simp
  qed
  then have b: "binade \<bar>a\<bar> = 1023"
    using pos by simp
  let ?u = "(2::rat) powi 971"
  have "(2::rat) ^ 53 = 2 ^ 1024 / ?u" by simp
  also have "\<dots> \<le> a / ?u"
    using assms by (intro divide_right_mono) simp_all
  finally have "of_int (2 ^ 53) \<le> a / ?u" by simp
  then have "2 ^ 53 \<le> \<lfloor>a / ?u\<rfloor>"
    by (simp only: le_floor_iff)
  then have "2 ^ 53 \<le> round_half_even (a / ?u)"
    using round_half_even_bounds [of "a / ?u"] by linarith
  then have "(of_int (2 ^ 53) :: rat) \<le> of_int (round_half_even (a / ?u))"
    by (simp only: of_int_le_iff)
  then have "2 ^ 53 * ?u \<le> of_int (round_half_even (a / ?u)) * ?u"
    by (intro mult_right_mono) simp_all
  moreover have "2 ^ 53 * ?u = (2::rat) ^ 1024" by simp
  ultimately have "2 ^ 1024 \<le> of_int (round_half_even (a / ?u)) * ?u" by simp
  with pos b show ?thesis
    by (simp add: round_double_def Let_def del: power_numeral)
qed

lemma round_double_whole:
  assumes "of_int \<lfloor>x\<rfloor> = x" "\<bar>x\<bar> < 2 ^ 53"
  shows "round_double x = Fin x"
proof (rule round_double_exact [where m = "\<lfloor>x\<rfloor>" and j = 0])
  show "x = of_int \<lfloor>x\<rfloor> * 2 powi 0" using assms(1) [symmetric] by simp
  have "\<bar>of_int \<lfloor>x\<rfloor> :: rat\<bar> = \<bar>x\<bar>"
    by (simp only: assms(1))
  then have "\<bar>of_int \<lfloor>x\<rfloor> :: rat\<bar> < 2 ^ 53"
    using assms(2) by (simp only:)
  then have "(of_int \<bar>\<lfloor>x\<rfloor>\<bar> :: rat) < of_int (2 ^ 53)"
    by (simp only: of_int_abs of_int_power of_int_numeral)
  then show "\<bar>\<lfloor>x\<rfloor>\<bar> < 2 ^ 53"
    by (simp only: of_int_less_iff)
  show "- 1074 \<le> (0::int)" by simp
  show "\<bar>x\<bar> < 2 ^ 1024"
    using assms(2) by (rule less_trans) simp
qed

lemma round_double_zero: "round_double 0 = Fin 0"
  by (simp add: round_double_def)

lemma round_double_one: "round_double 1 = Fin 1"
  by (rule round_double_whole) simp_all

lemma round_double_numeral:
  "(numeral n :: rat) < 9007199254740992 \<Longrightarrow> round_double (numeral n) = Fin (numeral n)"
  by (rule round_double_whole) simp_all

text \<open>The definitions that evaluate a rounding at a given binade.\<close>

lemmas round_double_defs =
  round_half_even_def floor_rat_divide_numeral floor_rat_one_divide_numeral

lemma skip_white_space_none: "white_space_prefix s = 0 \<Longrightarrow> skip_white_space s = s"
  by (subst skip_white_space.simps) simp

text \<open>The definitions that evaluate \<^verbatim>\<open>parseFloat\<close> on a given string whose number is
  whole and below \<open>2\<^sup>5\<^sup>3\<close>.\<close>

lemmas parse_defs =
  parseFloat_def parse_unsigned_def starts_with_def is_digit_def skip_white_space_none
  white_space_prefix_def digits_val_def pow10_def parse_exponent_def
  round_double_zero round_double_one round_double_numeral


lemma digit_chars:
  "char_of (48 :: nat) = CHR ''0''" "char_of (49 :: nat) = CHR ''1''"
  "char_of (50 :: nat) = CHR ''2''" "char_of (51 :: nat) = CHR ''3''"
  "char_of (52 :: nat) = CHR ''4''" "char_of (53 :: nat) = CHR ''5''"
  "char_of (54 :: nat) = CHR ''6''" "char_of (55 :: nat) = CHR ''7''"
  "char_of (56 :: nat) = CHR ''8''" "char_of (57 :: nat) = CHR ''9''"
  by code_simp+

text \<open>The definitions that evaluate a rounding to two decimals.\<close>

lemmas round_defs = round2_def floor_rat_divide_numeral floor_rat_one_divide_numeral

lemma foldl_add_sum_list:
  "foldl (\<lambda>s x. s + f x) a xs = a + sum_list (map f xs)" for a :: rat
  by (induction xs arbitrary: a) simp_all

lemma items_subtotal_sum: "items_subtotal items = (\<Sum>it\<leftarrow>items. price it * quantity it)"
  by (simp add: items_subtotal_def foldl_add_sum_list)


lemma parse_samples:
  "parseFloat ''n/a'' = NaN" "parseFloat ''18.0000'' = Fin 18" "parseFloat ''free'' = NaN"
  "parseFloat ''-5'' = Fin (- 5)" "parseFloat ''50.00'' = Fin 50"
  "parseFloat ''10 * [qty]'' = Fin 10"
  by (simp_all add: parse_defs)

text \<open>A number too large for a double reads as \<open>Infinity\<close>, for which
  \<^verbatim>\<open>toNum\<close> gives the fallback; a no-break space before a number is skipped; and
  1.005 reads as a double below 1.005, which prints as 1.00.\<close>

lemma parse_edge_cases:
  "parseFloat ''1e400'' = PInf"
  "toNum (JStr ''1e400'') 0 = 0"
  "parseFloat ([CHR 0xC2, CHR 0xA0] @ ''12'') = Fin 12"
  "parseFloat ''1.005'' = Fin (1131529406376837 / 1125899906842624)"
  "toFixed2 h (parseFloat ''1.005'') = ''1.00''"
proof -
  have big: "round_double (10 ^ 400) = PInf"
    by (rule round_double_overflow) simp
  show a: "parseFloat ''1e400'' = PInf"
    using big by (simp add: parse_defs)
  show "toNum (JStr ''1e400'') 0 = 0"
    by (simp add: toNum_def a)
  have "skip_white_space ([CHR 0xC2, CHR 0xA0] @ ''12'') = ''12''"
    by (subst skip_white_space.simps) (simp add: white_space_prefix_def skip_white_space_none)
  then show "parseFloat ([CHR 0xC2, CHR 0xA0] @ ''12'') = Fin 12"
    by (simp add: parseFloat_def parse_unsigned_def starts_with_def is_digit_def
        digits_val_def pow10_def parse_exponent_def round_double_numeral)
  have r: "round_double (201 / 200) = Fin (1131529406376837 / 1125899906842624)"
    by (subst round_double_normal [where e = 0]) (simp_all add: round_double_defs)
  show b: "parseFloat ''1.005'' = Fin (1131529406376837 / 1125899906842624)"
    using r by (simp add: parse_defs)
  show "toFixed2 h (parseFloat ''1.005'') = ''1.00''"
    unfolding b by (simp add: toFixed2_def floor_rat_divide_numeral digit_chars)
qed

subsection \<open>Grouping by tax class and the two loops\<close>

lemma itemsByTaxClass_snoc:
  "itemsByTaxClass (xs @ [x]) = group_item (itemsByTaxClass xs) x"
  by (simp add: itemsByTaxClass_def)

lemma itemsByTaxClass_Nil: "itemsByTaxClass [] = []"
  by (simp add: itemsByTaxClass_def)

lemma map_fst_group_item:
  "map fst (group_item g x) =
     (if item_tax_class x \<in> set (map fst g) then map fst g else map fst g @ [item_tax_class x])"
proof -
  have *: "map fst (map (\<lambda>(k, sub, its). if k = c then (k, F sub, G its) else (k, sub, its)) g') = map fst g'"
    for c F G and g' :: tax_groups
    by (induction g') auto
  have "map_of g (item_tax_class x) = None \<longleftrightarrow> item_tax_class x \<notin> set (map fst g)"
    by (simp add: map_of_eq_None_iff)
  then show ?thesis
    unfolding group_item_def Let_def by (auto split: prod.splits)
qed

lemma keys_itemsByTaxClass:
  "distinct (map fst (itemsByTaxClass items)) \<and> set (map fst (itemsByTaxClass items)) = tax_classes items"
proof (induction items rule: rev_induct)
  case Nil
  show ?case by (simp add: itemsByTaxClass_Nil tax_classes_def)
next
  case (snoc x xs)
  then show ?case
    unfolding itemsByTaxClass_snoc map_fst_group_item
    by (auto simp: tax_classes_def)
qed

lemma class_subtotal_snoc:
  "class_subtotal (xs @ [x]) c =
     class_subtotal xs c + (if item_tax_class x = c then price x * quantity x else 0)"
  by (simp add: class_subtotal_def class_items_def)

lemma class_items_snoc:
  "class_items (xs @ [x]) c = class_items xs c @ (if item_tax_class x = c then [x] else [])"
  by (simp add: class_items_def)

lemma class_absent:
  "c \<notin> tax_classes xs \<Longrightarrow> class_subtotal xs c = 0 \<and> class_items xs c = []"
proof -
  assume "c \<notin> tax_classes xs"
  then have "class_items xs c = []"
    by (auto simp: tax_classes_def class_items_def filter_empty_conv)
  then show ?thesis by (simp add: class_subtotal_def)
qed

lemma entries_itemsByTaxClass:
  "(k, s, its) \<in> set (itemsByTaxClass items) \<Longrightarrow>
     s = class_subtotal items k \<and> its = class_items items k"
proof (induction items arbitrary: k s its rule: rev_induct)
  case Nil
  then show ?case by (simp add: itemsByTaxClass_Nil)
next
  case (snoc x xs)
  let ?g = "itemsByTaxClass xs"
  let ?c = "item_tax_class x"
  from snoc.prems obtain k0 s0 its0 where
    mem: "(k0, s0, its0) \<in> set (if map_of ?g ?c = None then ?g @ [(?c, 0, [])] else ?g)"
    and eq: "(k, s, its) = (if k0 = ?c then (k0, s0 + price x * quantity x, its0 @ [x]) else (k0, s0, its0))"
    unfolding itemsByTaxClass_snoc group_item_def Let_def by auto
  have old: "s0 = class_subtotal xs k0 \<and> its0 = class_items xs k0"
  proof (cases "(k0, s0, its0) \<in> set ?g")
    case True
    then show ?thesis using snoc.IH by blast
  next
    case False
    with mem have new: "map_of ?g ?c = None" "k0 = ?c" "s0 = 0" "its0 = []"
      by (auto split: if_splits)
    from new(1) have "?c \<notin> tax_classes xs"
      using keys_itemsByTaxClass [of xs] by (simp add: map_of_eq_None_iff)
    then show ?thesis using new class_absent by simp
  qed
  from eq old show ?case
    by (auto simp: class_subtotal_snoc class_items_snoc split: if_splits)
qed

lemma mset_object_entries: "mset (object_entries g) = mset g"
  by (simp add: object_entries_def)

lemma set_object_entries: "set (object_entries g) = set g"
  using mset_object_entries [of g] by (metis set_mset_mset)

lemma class_order_props: "distinct (class_order items) \<and> set (class_order items) = tax_classes items"
proof -
  have "mset (class_order items) = mset (map fst (itemsByTaxClass items))"
    unfolding class_order_def by (simp add: mset_object_entries)
  then show ?thesis
    using keys_itemsByTaxClass [of items]
    by (metis mset_eq_imp_distinct_iff set_mset_mset)
qed

lemma entries_as_classes:
  "object_entries (itemsByTaxClass items) =
     map (\<lambda>c. (c, class_subtotal items c, class_items items c)) (class_order items)"
proof -
  have "\<forall>e \<in> set (object_entries (itemsByTaxClass items)).
          e = (fst e, class_subtotal items (fst e), class_items items (fst e))"
    using entries_itemsByTaxClass [of _ _ _ items]
    by (auto simp: set_object_entries)
  then have "map (\<lambda>e. (fst e, class_subtotal items (fst e), class_items items (fst e)))
               (object_entries (itemsByTaxClass items)) = object_entries (itemsByTaxClass items)"
    by (induction "object_entries (itemsByTaxClass items)") (simp_all add: map_idI)
  then show ?thesis
    by (simp add: class_order_def comp_def)
qed

lemma foldl_apply_rate:
  "foldl (apply_rate c s sh) acc rs =
     \<lparr> tax_total = tax_total acc + (\<Sum>r\<leftarrow>rs. item_tax_of s r),
       shipping_tax_total = shipping_tax_total acc + (\<Sum>r\<leftarrow>rs. shipping_tax_of sh r),
       tax_lines = tax_lines acc @ map (tax_line_of c s sh) rs \<rparr>"
  by (induction rs arbitrary: acc) (simp_all add: apply_rate_def)

lemma foldl_apply_class:
  "foldl (apply_class sh rates) acc es =
     \<lparr> tax_total = tax_total acc
         + (\<Sum>e\<leftarrow>es. \<Sum>r\<leftarrow>applicableRates (fst e) rates. item_tax_of (fst (snd e)) r),
       shipping_tax_total = shipping_tax_total acc
         + (\<Sum>e\<leftarrow>es. \<Sum>r\<leftarrow>applicableRates (fst e) rates. shipping_tax_of sh r),
       tax_lines = tax_lines acc
         @ concat (map (\<lambda>e. map (tax_line_of (fst e) (fst (snd e)) sh)
                                (applicableRates (fst e) rates)) es) \<rparr>"
proof (induction es arbitrary: acc)
  case Nil
  show ?case by simp
next
  case (Cons e es)
  have step: "apply_class sh rates acc e =
     \<lparr> tax_total = tax_total acc
         + (\<Sum>r\<leftarrow>applicableRates (fst e) rates. item_tax_of (fst (snd e)) r),
       shipping_tax_total = shipping_tax_total acc
         + (\<Sum>r\<leftarrow>applicableRates (fst e) rates. shipping_tax_of sh r),
       tax_lines = tax_lines acc
         @ map (tax_line_of (fst e) (fst (snd e)) sh) (applicableRates (fst e) rates) \<rparr>"
    by (cases e) (simp add: apply_class_def foldl_apply_rate)
  have "foldl (apply_class sh rates) acc (e # es)
          = foldl (apply_class sh rates) (apply_class sh rates acc e) es"
    by simp
  also note Cons.IH
  finally show ?case
    by (simp add: step add.assoc)
qed

lemma calculateTaxes_by_class:
  "calculateTaxes items sub sh rates =
     \<lparr> tax_total =
         (\<Sum>c\<leftarrow>class_order items. \<Sum>r\<leftarrow>applicableRates c rates.
             item_tax_of (class_subtotal items c) r),
       shipping_tax_total =
         (\<Sum>c\<leftarrow>class_order items. \<Sum>r\<leftarrow>applicableRates c rates. shipping_tax_of sh r),
       tax_lines =
         concat (map (\<lambda>c. map (tax_line_of c (class_subtotal items c) sh)
                               (applicableRates c rates)) (class_order items)) \<rparr>"
  unfolding calculateTaxes_def foldl_apply_class entries_as_classes
  by (simp add: comp_def)

lemma tax_total_by_class:
  "tax_total (calculateTaxes items sub sh rates) =
     (\<Sum>c\<in>tax_classes items. \<Sum>r\<leftarrow>applicableRates c rates.
         item_tax_of (class_subtotal items c) r)"
  using class_order_props [of items]
  by (simp add: calculateTaxes_by_class sum_list_distinct_conv_sum_set)

lemma shipping_tax_total_by_class:
  "shipping_tax_total (calculateTaxes items sub sh rates) =
     (\<Sum>c\<in>tax_classes items. \<Sum>r\<leftarrow>applicableRates c rates. shipping_tax_of sh r)"
  using class_order_props [of items]
  by (simp add: calculateTaxes_by_class sum_list_distinct_conv_sum_set)

lemma class_subtotal_mset:
  "mset xs = mset ys \<Longrightarrow> class_subtotal xs c = class_subtotal ys c"
proof -
  assume eq: "mset xs = mset ys"
  have "class_subtotal zs c =
          sum_mset (image_mset (\<lambda>it. price it * quantity it)
                      (filter_mset (\<lambda>it. item_tax_class it = c) (mset zs)))" for zs
    by (simp add: class_subtotal_def class_items_def sum_mset_sum_list [symmetric])
  with eq show ?thesis by simp
qed

lemma tax_classes_mset: "mset xs = mset ys \<Longrightarrow> tax_classes xs = tax_classes ys"
  by (metis tax_classes_def set_mset_mset)

text \<open>The definitions that evaluate \<^verbatim>\<open>calculateTaxes\<close> on a given cart.\<close>

lemmas tax_defs =
  calculateTaxes_def itemsByTaxClass_def group_item_def item_tax_class_def object_entries_def
  is_array_index_def applicableRates_def apply_class_def apply_rate_def tax_line_of_def
  item_tax_of_def shipping_tax_of_def toNum_def show_int_def digit_chars

subsection \<open>The tax calculator on doubles\<close>

text \<open>The embedded functions agree with the specification's words on the default class and
  on the matching of rates.\<close>

lemma item_tax_class_claimed: "item_tax_class it = claimed_class it"
  by (cases "tax_class it") (simp_all add: item_tax_class_def claimed_class_def)

lemma applicableRates_matches: "applicableRates c rates = filter (rate_matches c) rates"
  unfolding applicableRates_def by (rule filter_cong) (simp_all add: rate_matches_def)

lemma forEach_throwing_snoc:
  "forEach_throwing f acc (xs @ [x]) =
     (case forEach_throwing f acc xs of Inl e \<Rightarrow> Inl e | Inr acc1 \<Rightarrow> f acc1 x)"
  by (induction xs arbitrary: acc) (simp_all split: sum.splits)

lemma first_occurrences_snoc:
  "first_occurrences (xs @ [x]) =
     (if x \<in> set xs then first_occurrences xs else first_occurrences xs @ [x])"
  by (simp add: first_occurrences_def)

lemma set_first_occurrences: "set (first_occurrences xs) = set xs"
  by (simp add: first_occurrences_def)

lemma distinct_first_occurrences: "distinct (first_occurrences xs)"
  by (simp add: first_occurrences_def)

lemma running_total_snoc: "running_total (xs @ [x]) = dadd (running_total xs) x"
  by (simp add: running_total_def)

lemma claimed_group_snoc:
  "claimed_group (xs @ [x]) k =
     (if k = claimed_class x
      then (k, dadd (claimed_class_subtotal xs k) (line_total x),
            filter (\<lambda>it. claimed_class it = k) xs @ [x])
      else claimed_group xs k)"
  by (auto simp: claimed_group_def claimed_class_subtotal_def running_total_snoc)

lemma claimed_group_absent:
  "c \<notin> claimed_class ` set xs \<Longrightarrow> claimed_group xs c = (c, Fin 0, [])"
proof -
  assume "c \<notin> claimed_class ` set xs"
  then have "filter (\<lambda>it. claimed_class it = c) xs = []"
    by (auto simp: filter_empty_conv)
  then show ?thesis
    by (simp add: claimed_group_def claimed_class_subtotal_def running_total_def)
qed

lemma group_item_ieee_claimed:
  assumes "\<not> inherited_class x"
  shows "group_item_ieee (map (claimed_group xs) (first_occurrences (map claimed_class xs))) x
           = Inr (map (claimed_group (xs @ [x]))
                    (first_occurrences (map claimed_class (xs @ [x]))))"
proof -
  let ?ks = "first_occurrences (map claimed_class xs)"
  let ?c = "claimed_class x"
  let ?upd = "\<lambda>(k, sub, its).
                  if k = ?c
                  then (k, dadd sub (dmul (Fin (price x)) (Fin (quantity x))), its @ [x])
                  else (k, sub, its)"
  have keys: "map_of (map (claimed_group xs) ?ks) ?c = None \<longleftrightarrow> ?c \<notin> claimed_class ` set xs"
    by (simp add: map_of_eq_None_iff image_image claimed_group_def set_first_occurrences)
  have upd: "?upd (claimed_group xs k) = claimed_group (xs @ [x]) k" for k
    by (simp add: claimed_group_snoc) (simp add: claimed_group_def line_total_def)
  have old: "map ?upd (map (claimed_group xs) ?ks) = map (claimed_group (xs @ [x])) ?ks"
    by (simp add: upd)
  have new: "?c \<notin> claimed_class ` set xs \<Longrightarrow> ?upd (?c, Fin 0, []) = claimed_group (xs @ [x]) ?c"
    using upd [of ?c] by (simp add: claimed_group_absent)
  from assms have ok: "item_tax_class x \<notin> set inherited_names"
    by (simp add: inherited_class_def item_tax_class_claimed)
  let ?G = "map (claimed_group xs) ?ks"
  have unfold: "group_item_ieee ?G x =
      Inr (map ?upd (if map_of ?G ?c = None then ?G @ [(?c, Fin 0, [])] else ?G))"
    using ok by (simp add: group_item_ieee_def Let_def item_tax_class_claimed)
  show ?thesis
  proof (cases "?c \<in> claimed_class ` set xs")
    case True
    with keys have k: "map_of ?G ?c \<noteq> None" by blast
    have "group_item_ieee ?G x = Inr (map ?upd ?G)"
      unfolding unfold by (simp only: k if_False)
    with True show ?thesis
      by (simp only: old) (simp add: first_occurrences_snoc)
  next
    case False
    with keys have k: "map_of ?G ?c = None" by blast
    have "group_item_ieee ?G x = Inr (map ?upd (?G @ [(?c, Fin 0, [])]))"
      unfolding unfold by (simp only: k simp_thms if_True)
    also have "map ?upd (?G @ [(?c, Fin 0, [])]) = map ?upd ?G @ [?upd (?c, Fin 0, [])]"
      by simp
    finally show ?thesis
      using False by (simp only: old new [OF False]) (simp add: first_occurrences_snoc)
  qed
qed

lemma itemsByTaxClass_ieee_groups:
  assumes "\<forall>it \<in> set items. \<not> inherited_class it"
  shows "itemsByTaxClass_ieee items
           = Inr (map (claimed_group items) (first_occurrences (map claimed_class items)))"
  using assms
proof (induction items rule: rev_induct)
  case Nil
  show ?case by (simp add: itemsByTaxClass_ieee_def first_occurrences_def)
next
  case (snoc x xs)
  then have "itemsByTaxClass_ieee xs
           = Inr (map (claimed_group xs) (first_occurrences (map claimed_class xs)))"
    and "\<not> inherited_class x"
    by simp_all
  then show ?case
    using group_item_ieee_claimed [of x xs]
    by (simp add: itemsByTaxClass_ieee_def forEach_throwing_snoc)
qed

lemma forEach_throwing_group_throws:
  "\<exists>it \<in> set items. inherited_class it \<Longrightarrow>
     forEach_throwing group_item_ieee acc items = Inl TypeError"
proof (induction items arbitrary: acc)
  case Nil
  then show ?case by simp
next
  case (Cons x xs)
  show ?case
  proof (cases "inherited_class x")
    case True
    then show ?thesis
      by (simp add: group_item_ieee_def inherited_class_def item_tax_class_claimed)
  next
    case False
    with Cons.prems have "\<exists>it \<in> set xs. inherited_class it" by simp
    then have "forEach_throwing group_item_ieee acc1 xs = Inl TypeError" for acc1
      by (rule Cons.IH)
    moreover have "e = TypeError" for e :: js_error
      by (cases e) simp
    ultimately show ?thesis
      by (simp split: sum.splits)
  qed
qed

lemma insort_key_map:
  "insort_key f (h x) (map h ys) = map h (insort_key (\<lambda>y. f (h y)) x ys)"
  by (induction ys) simp_all

lemma sort_key_map: "sort_key f (map h xs) = map h (sort_key (\<lambda>y. f (h y)) xs)"
  by (induction xs) (simp_all add: insort_key_map)

lemma object_entries_map:
  "object_entries (map (\<lambda>k. (k, g k)) ks) = map (\<lambda>k. (k, g k)) (index_keys_first ks)"
  by (simp add: object_entries_def index_keys_first_def filter_map comp_def sort_key_map)

lemma foldl_apply_rate_ieee:
  "foldl (apply_rate_ieee c cs sh) acc rs =
     \<lparr> tax_total = foldl dadd (tax_total acc) (map (item_tax_ieee cs) rs),
       shipping_tax_total = foldl dadd (shipping_tax_total acc) (map (shipping_tax_ieee sh) rs),
       tax_lines = tax_lines acc @ map (tax_line_ieee c cs sh) rs \<rparr>"
  by (induction rs arbitrary: acc) (simp_all add: apply_rate_ieee_def)

lemma foldl_apply_class_ieee:
  "foldl (apply_class_ieee sh rates) acc (map (claimed_group items) cs) =
     \<lparr> tax_total = foldl dadd (tax_total acc)
         (map (claimed_item_tax items)
            (concat (map (\<lambda>c. map (Pair c) (filter (rate_matches c) rates)) cs))),
       shipping_tax_total = foldl dadd (shipping_tax_total acc)
         (map (claimed_shipping_tax sh)
            (concat (map (\<lambda>c. map (Pair c) (filter (rate_matches c) rates)) cs))),
       tax_lines = tax_lines acc
         @ map (claimed_tax_line items sh)
            (concat (map (\<lambda>c. map (Pair c) (filter (rate_matches c) rates)) cs)) \<rparr>"
proof (induction cs arbitrary: acc)
  case Nil
  show ?case by simp
next
  case (Cons c cs)
  have step: "apply_class_ieee sh rates acc (claimed_group items c) =
     \<lparr> tax_total = foldl dadd (tax_total acc)
         (map (claimed_item_tax items) (map (Pair c) (filter (rate_matches c) rates))),
       shipping_tax_total = foldl dadd (shipping_tax_total acc)
         (map (claimed_shipping_tax sh) (map (Pair c) (filter (rate_matches c) rates))),
       tax_lines = tax_lines acc
         @ map (claimed_tax_line items sh) (map (Pair c) (filter (rate_matches c) rates)) \<rparr>"
  proof -
    have a: "map (claimed_item_tax items) (map (Pair c) rs)
               = map (item_tax_ieee (claimed_class_subtotal items c)) rs" for rs
      by (simp add: claimed_item_tax_def item_tax_ieee_def)
    have b: "map (claimed_shipping_tax sh) (map (Pair c) rs)
               = map (shipping_tax_ieee sh) rs" for rs
      by (simp add: claimed_shipping_tax_def shipping_tax_ieee_def)
    have l: "map (claimed_tax_line items sh) (map (Pair c) rs)
               = map (tax_line_ieee c (claimed_class_subtotal items c) sh) rs" for rs
      by (simp add: claimed_tax_line_def tax_line_ieee_def claimed_item_tax_def
          item_tax_ieee_def claimed_shipping_tax_def shipping_tax_ieee_def)
    show ?thesis
      by (simp only: a b l)
         (simp add: apply_class_ieee_def claimed_group_def foldl_apply_rate_ieee
            applicableRates_matches)
  qed
  have "foldl (apply_class_ieee sh rates) acc (map (claimed_group items) (c # cs))
          = foldl (apply_class_ieee sh rates)
              (apply_class_ieee sh rates acc (claimed_group items c))
              (map (claimed_group items) cs)"
    by simp
  also note Cons.IH
  finally show ?case
    by (simp add: step)
qed

lemma calculateTaxes_ieee_by_pairs:
  "calculateTaxes_ieee items sub sh rates =
     (if \<exists>it \<in> set items. inherited_class it then Inl TypeError
      else Inr \<lparr> tax_total =
                   running_total (map (claimed_item_tax items) (claimed_pairs items rates)),
                 shipping_tax_total =
                   running_total (map (claimed_shipping_tax sh) (claimed_pairs items rates)),
                 tax_lines = map (claimed_tax_line items sh) (claimed_pairs items rates) \<rparr>)"
proof (cases "\<exists>it \<in> set items. inherited_class it")
  case True
  then show ?thesis
    by (simp add: calculateTaxes_ieee_def itemsByTaxClass_ieee_def
        forEach_throwing_group_throws)
next
  case False
  then have g: "itemsByTaxClass_ieee items
           = Inr (map (claimed_group items) (first_occurrences (map claimed_class items)))"
    by (intro itemsByTaxClass_ieee_groups) simp
  have e: "object_entries (map (claimed_group items) ks)
             = map (claimed_group items) (index_keys_first ks)" for ks
    using object_entries_map [of "\<lambda>k. (claimed_class_subtotal items k,
              filter (\<lambda>it. claimed_class it = k) items)" ks]
    by (simp add: claimed_group_def [abs_def])
  from False show ?thesis
    by (simp add: calculateTaxes_ieee_def g e foldl_apply_class_ieee running_total_def
        claimed_pairs_def claimed_classes_def)
qed

text \<open>The definitions that evaluate \<^verbatim>\<open>calculateTaxes\<close> on doubles for a given
  cart.\<close>

lemmas ieee_defs =
  calculateTaxes_ieee_def itemsByTaxClass_ieee_def group_item_ieee_def inherited_names_def
  item_tax_class_def object_entries_def is_array_index_def applicableRates_def
  apply_class_ieee_def apply_rate_ieee_def tax_line_ieee_def item_tax_ieee_def
  shipping_tax_ieee_def toNum_def show_int_def digit_chars Let_def


subsection \<open>What the handlers and the effects leave unchanged\<close>

lemma shippingLines_updateTaxCalculation [simp]:
  "shippingLines (updateTaxCalculation st items sl rates) = shippingLines st"
  by (simp add: updateTaxCalculation_def Let_def)

lemma taxCalculation_updateTaxCalculation:
  "taxCalculation (updateTaxCalculation st items sl rates) =
     (if rates = [] then None
      else Some (calculateTaxes items (items_subtotal items) (lines_total sl) rates))"
  by (simp add: updateTaxCalculation_def Let_def)

lemma selectedPaymentMethod_updateTaxCalculation [simp]:
  "selectedPaymentMethod (updateTaxCalculation st items sl rates) = selectedPaymentMethod st"
  by (simp add: updateTaxCalculation_def Let_def)

lemma taxRates_updateTaxCalculation [simp]:
  "taxRates (updateTaxCalculation st items sl rates) = taxRates st"
  by (simp add: updateTaxCalculation_def Let_def)

lemma paymentGateways_updateTaxCalculation [simp]:
  "paymentGateways (updateTaxCalculation st items sl rates) = paymentGateways st"
  by (simp add: updateTaxCalculation_def Let_def)

lemma shippingLines_run_effects [simp]: "shippingLines (run_effects st) = shippingLines st"
  by (simp add: run_effects_def payment_effect_def tax_effect_def)

lemma taxRates_run_effects [simp]: "taxRates (run_effects st) = taxRates st"
  by (simp add: run_effects_def payment_effect_def tax_effect_def)

lemma paymentGateways_run_effects [simp]: "paymentGateways (run_effects st) = paymentGateways st"
  by (simp add: run_effects_def payment_effect_def tax_effect_def)

lemma taxCalculation_run_effects_no_rates:
  "taxRates st = [] \<Longrightarrow> taxCalculation st = None \<Longrightarrow> taxCalculation (run_effects st) = None"
  by (simp add: run_effects_def payment_effect_def tax_effect_def taxCalculation_updateTaxCalculation)

lemma selectedPaymentMethod_run_effects_no_gateways:
  "paymentGateways st = [] \<Longrightarrow> selectedPaymentMethod (run_effects st) = selectedPaymentMethod st"
  by (simp add: run_effects_def payment_effect_def tax_effect_def)

lemma determinePaymentMethod_no_gateways: "determinePaymentMethod items [] = None"
  by (simp add: determinePaymentMethod_def)



subsection \<open>Coupon discount\<close>

text \<open>Each turn of the reduction adds the discount of its coupon; a coupon of another type
  leaves the sum as it is, which is adding \<open>0\<close>.\<close>

lemma coupon_step:
  "(\<lambda>sum c.
      if discount_type c = ''percent'' then
        jadd sum (jdiv_lit (jmul sub (parseFloat (amount c))) 100)
      else if discount_type c = ''fixed_cart'' then
        jadd sum (parseFloat (amount c))
      else sum) = (\<lambda>sum c. jadd sum (coupon_discount_of sub c))"
  by (intro ext) (simp add: coupon_discount_of_def jadd_zero_right jmul_jdiv_lit)

lemma calcCouponDiscount_jsum:
  "calcCouponDiscount sub coupons = jsum (map (coupon_discount_of sub) coupons)"
  unfolding calcCouponDiscount_def coupon_step
  by (simp add: foldl_jadd_jsum jadd_zero_left)

text \<open>C5. For every subtotal and every list of applied coupons, the coupon discount is the
  sum over the coupons of: the subtotal times \<open>P / 100\<close> for a percentage coupon of amount
  \<open>P\<close>; exactly \<open>A\<close>, whatever the subtotal, for a fixed-cart coupon of amount \<open>A\<close>; and
  \<open>0\<close> for a coupon of any other discount type.\<close>

theorem calcCouponDiscount_is_sum:
  "calcCouponDiscount sub coupons = jsum (map (coupon_discount_of sub) coupons)"
  by (rule calcCouponDiscount_jsum)


text \<open>Ten percent of 1000, a fixed 50.50 and a coupon of a type that is ignored.\<close>

lemma calcCouponDiscount_example:
  "calcCouponDiscount (Fin 1000)
     [\<lparr>code = ''A'', amount = ''10'', discount_type = ''percent''\<rparr>,
      \<lparr>code = ''B'', amount = ''50.50'', discount_type = ''fixed_cart''\<rparr>,
      \<lparr>code = ''C'', amount = ''7'', discount_type = ''fixed_product''\<rparr>] = Fin (301 / 2)"
proof -
  have "round_double (101 / 2) = Fin (101 / 2)"
    by (rule round_double_exact [where m = 101 and j = "- 1"]) simp_all
  then show ?thesis
    by (simp add: calcCouponDiscount_def parse_defs)
qed

subsection \<open>The grand total\<close>

text \<open>The shipping lines of the state are those of one method: no line at first, and no
  handler leaves more than one.\<close>

lemma length_lines_Suc: "length (calculateShippingLines h [m] items) \<le> Suc 0"
  by (simp add: calculateShippingLines_def)

lemma shippingLines_updateCartMeta:
  "length (shippingLines st) \<le> 1 \<Longrightarrow> length (shippingLines (updateCartMeta h st items ok)) \<le> 1"
  by (simp add: updateCartMeta_def Let_def tax_effect_def length_lines_Suc
        split: option.splits)

lemma shippingLines_load_totals:
  "length (shippingLines st) \<le> 1
   \<Longrightarrow> length (shippingLines (load_totals h st fetched methods rates gateways)) \<le> 1"
  by (simp add: load_totals_def Let_def length_lines_Suc split: option.splits)

lemma handlers_keep_one_line:
  assumes "length (shippingLines st) \<le> 1"
  shows "length (shippingLines (loadCart h st inp)) \<le> 1"
    and "length (shippingLines (updateShippingMethod h st m)) \<le> 1"
    and "length (shippingLines (updateQuantity h st ident qty ok)) \<le> 1"
    and "length (shippingLines (removeItem h st ident ok)) \<le> 1"
proof -
  show "length (shippingLines (loadCart h st inp)) \<le> 1"
    using assms
    by (auto simp: loadCart_def Let_def load_failed_def
          intro!: shippingLines_load_totals [simplified] split: option.splits if_splits)
  show "length (shippingLines (updateShippingMethod h st m)) \<le> 1"
    by (simp add: updateShippingMethod_def Let_def tax_effect_def length_lines_Suc)
  show "length (shippingLines (updateQuantity h st ident qty ok)) \<le> 1"
    using assms
    by (auto simp: updateQuantity_def Let_def intro!: shippingLines_updateCartMeta [simplified])
  show "length (shippingLines (removeItem h st ident ok)) \<le> 1"
    using assms
    by (auto simp: removeItem_def Let_def intro!: shippingLines_updateCartMeta [simplified])
qed

lemma initial_no_lines: "shippingLines initial_state = []"
  by (simp add: initial_state_def)





subsection \<open>The tax calculator\<close>

text \<open>By \<open>calculateTaxes_ieee_by_pairs\<close> the calculator does what C2 says for every cart
  that holds no item of an inherited class name: it visits each class of the cart once
  (an item without a class counts as standard), pairs it with the rates whose class equals
  it or, for standard, is empty, and for each pair adds the class subtotal times the rate
  over 100 to the running tax total, adds the shipping total times the rate over 100 to the
  running shipping tax total only when the rate applies to shipping, and emits one tax
  line. Two carts: the example of the specification, and a cart of two classes with two
  rates, each of which matches one class only.\<close>

lemma sample_taxes_ieee:
  "calculateTaxes_ieee [sample_item] (Fin 1000) (Fin 100) [gst18] =
     Inr \<lparr> tax_total = Fin 180, shipping_tax_total = Fin 18,
       tax_lines =
         [\<lparr> line_id = 1, rate_code = ''TAX-1'', line_rate_id = 1, label = ''GST'',
            line_compound = False, line_tax_total = Fin 180, line_shipping_tax_total = Fin 18,
            rate_percent = Fin 18, line_tax_class = ''standard'' \<rparr>] \<rparr>"
  by (simp add: ieee_defs parse_defs sample_item_def gst18_def)

lemma checkout_taxes_ieee:
  "calculateTaxes_ieee [sample_item, reduced_item] (Fin 1500) (Fin 50) [gst18, reduced5] =
     Inr \<lparr> tax_total = Fin 205, shipping_tax_total = Fin 9,
       tax_lines =
         [\<lparr> line_id = 1, rate_code = ''TAX-1'', line_rate_id = 1, label = ''GST'',
            line_compound = False, line_tax_total = Fin 180, line_shipping_tax_total = Fin 9,
            rate_percent = Fin 18, line_tax_class = ''standard'' \<rparr>,
          \<lparr> line_id = 2, rate_code = ''TAX-2'', line_rate_id = 2, label = ''GST 5'',
            line_compound = False, line_tax_total = Fin 25, line_shipping_tax_total = Fin 0,
            rate_percent = Fin 5, line_tax_class = ''reduced-rate'' \<rparr>] \<rparr>"
  by (simp add: ieee_defs parse_defs sample_item_def reduced_item_def gst18_def reduced5_def)


lemma sample_total_tax: "dadd (Fin 180) (Fin 18) = Fin 198"
  by (simp add: round_double_numeral)

lemma checkout_pairs:
  "claimed_pairs [sample_item, reduced_item] [gst18, reduced5]
     = [(''standard'', gst18), (''reduced-rate'', reduced5)]"
  by (simp add: claimed_pairs_def claimed_classes_def index_keys_first_def
      first_occurrences_def claimed_class_def is_array_index_def is_digit_def rate_matches_def
      sample_item_def reduced_item_def gst18_def reduced5_def)

text \<open>C2. The tax calculator partitions the cart items by tax class, matches each class
  against the rates, and adds up item tax and shipping tax per matching pair; for one
  standard rate of 18 that applies to shipping, subtotal 1000 and shipping 100, it returns
  item tax 180 and shipping tax 18, 198 in all. This fails for a cart that holds an item
  whose tax class is the name of a property that every object inherits: with the lamp of
  the example and a kit of tax class \<^verbatim>\<open>constructor\<close> the calculator throws a
  \<^verbatim>\<open>TypeError\<close> and returns no taxes, where the lamp alone is taxed as the claim
  says.\<close>

theorem calculateTaxes_throws_on_inherited_class:
  "calculateTaxes_ieee [sample_item, constructor_item] (Fin 2000) (Fin 100) [gst18]
     = Inl TypeError
   \<and> tax_class constructor_item = Some ''constructor''
   \<and> calculateTaxes_ieee [sample_item] (Fin 1000) (Fin 100) [gst18] =
       Inr \<lparr> tax_total = Fin 180, shipping_tax_total = Fin 18,
         tax_lines =
           [\<lparr> line_id = 1, rate_code = ''TAX-1'', line_rate_id = 1, label = ''GST'',
              line_compound = False, line_tax_total = Fin 180,
              line_shipping_tax_total = Fin 18,
              rate_percent = Fin 18, line_tax_class = ''standard'' \<rparr>] \<rparr>"
  by (simp add: ieee_defs parse_defs sample_item_def constructor_item_def gst18_def)

subsection \<open>The payment selector\<close>

lemma find_filter: "find P (filter Q xs) = find (\<lambda>x. Q x \<and> P x) xs"
  by (induction xs) simp_all

lemma supports_cod_iff: "supports_cod item = cod_capable item"
  by (auto simp: supports_cod_def cod_capable_def split: option.splits)

lemma enabled_gateway_None:
  "enabled_gateway ident gws = None \<longleftrightarrow> \<not> (\<exists>g \<in> set gws. gw_enabled g \<and> gw_id g = ident)"
  by (auto simp: enabled_gateway_def find_None_iff)

lemma enabled_gateway_Some:
  "enabled_gateway ident gws = Some g \<Longrightarrow> g \<in> set gws \<and> gw_enabled g \<and> gw_id g = ident"
  by (auto simp: enabled_gateway_def find_Some_iff)

lemma determinePaymentMethod_cases:
  "determinePaymentMethod items gws =
     (if list_all cod_capable items \<and> enabled_gateway ''cod'' gws \<noteq> None
      then map_option cod_selection (enabled_gateway ''cod'' gws)
      else if enabled_gateway ''razorpay'' gws \<noteq> None
      then map_option online_selection (enabled_gateway ''razorpay'' gws)
      else map_option cod_selection (enabled_gateway ''cod'' gws))"
  by (auto simp: determinePaymentMethod_def Let_def find_filter enabled_gateway_def
        cod_selection_def online_selection_def supports_cod_iff [abs_def]
        split: option.splits)

text \<open>C3. For every cart and every list of payment gateways the selector follows this
  order: (a) if every item supports cash on delivery or declares no restriction, and an
  enabled cash-on-delivery gateway exists, it selects that gateway with the method
  \<^verbatim>\<open>cod\<close>; (b) otherwise, if an enabled online gateway (\<^verbatim>\<open>razorpay\<close>) exists, it
  selects that; (c) otherwise, if an enabled cash-on-delivery gateway exists, it selects it
  as a fallback; (d) otherwise it selects nothing. The gateway taken is the first enabled
  one of its id; by \<open>enabled_gateway_None\<close> there is one exactly when some gateway of the
  list is enabled and has the id.\<close>

theorem determinePaymentMethod_priority:
  "(list_all cod_capable items \<and> enabled_gateway ''cod'' gws = Some g
      \<longrightarrow> determinePaymentMethod items gws = Some (cod_selection g))
   \<and> (\<not> (list_all cod_capable items \<and> enabled_gateway ''cod'' gws \<noteq> None)
        \<and> enabled_gateway ''razorpay'' gws = Some g
      \<longrightarrow> determinePaymentMethod items gws = Some (online_selection g))
   \<and> (\<not> list_all cod_capable items \<and> enabled_gateway ''razorpay'' gws = None
        \<and> enabled_gateway ''cod'' gws = Some g
      \<longrightarrow> determinePaymentMethod items gws = Some (cod_selection g))
   \<and> (enabled_gateway ''cod'' gws = None \<and> enabled_gateway ''razorpay'' gws = None
      \<longrightarrow> determinePaymentMethod items gws = None)"
  by (simp add: determinePaymentMethod_cases)

lemmas gateway_samples =
  enabled_gateway_def cod_capable_def sample_item_def prepaid_item_def cod_gateway_def
  razorpay_gateway_def

theorem determinePaymentMethod_priority_witness:
  "determinePaymentMethod [sample_item] [razorpay_gateway, cod_gateway]
     = Some (cod_selection cod_gateway)
   \<and> determinePaymentMethod [sample_item, prepaid_item] [cod_gateway, razorpay_gateway]
     = Some (online_selection razorpay_gateway)
   \<and> determinePaymentMethod [prepaid_item] [cod_gateway] = Some (cod_selection cod_gateway)
   \<and> determinePaymentMethod [sample_item] [cod_gateway\<lparr>gw_enabled := False\<rparr>] = None"
proof (intro conjI)
  have "list_all cod_capable [sample_item]
      \<and> enabled_gateway ''cod'' [razorpay_gateway, cod_gateway] = Some cod_gateway"
    by (simp add: gateway_samples)
  with determinePaymentMethod_priority
         [of "[sample_item]" "[razorpay_gateway, cod_gateway]" cod_gateway]
  show "determinePaymentMethod [sample_item] [razorpay_gateway, cod_gateway]
          = Some (cod_selection cod_gateway)"
    by blast
  have "\<not> (list_all cod_capable [sample_item, prepaid_item]
            \<and> enabled_gateway ''cod'' [cod_gateway, razorpay_gateway] \<noteq> None)
      \<and> enabled_gateway ''razorpay'' [cod_gateway, razorpay_gateway] = Some razorpay_gateway"
    by (simp add: gateway_samples)
  with determinePaymentMethod_priority
         [of "[sample_item, prepaid_item]" "[cod_gateway, razorpay_gateway]" razorpay_gateway]
  show "determinePaymentMethod [sample_item, prepaid_item] [cod_gateway, razorpay_gateway]
          = Some (online_selection razorpay_gateway)"
    by blast
  have "\<not> list_all cod_capable [prepaid_item]
      \<and> enabled_gateway ''razorpay'' [cod_gateway] = None
      \<and> enabled_gateway ''cod'' [cod_gateway] = Some cod_gateway"
    by (simp add: gateway_samples)
  with determinePaymentMethod_priority [of "[prepaid_item]" "[cod_gateway]" cod_gateway]
  show "determinePaymentMethod [prepaid_item] [cod_gateway] = Some (cod_selection cod_gateway)"
    by blast
  have "enabled_gateway ''cod'' [cod_gateway\<lparr>gw_enabled := False\<rparr>] = None
      \<and> enabled_gateway ''razorpay'' [cod_gateway\<lparr>gw_enabled := False\<rparr>] = None"
    by (simp add: gateway_samples)
  with determinePaymentMethod_priority
         [of "[sample_item]" "[cod_gateway\<lparr>gw_enabled := False\<rparr>]"]
  show "determinePaymentMethod [sample_item] [cod_gateway\<lparr>gw_enabled := False\<rparr>] = None"
    by blast
qed

subsection \<open>The GST breakdown\<close>

lemma foldl_gst_step:
  "foldl gst_step (c, s) ls =
     (foldl (\<lambda>a l. dadd (dadd a (ddiv_lit (line_tax_total l) 2))
                     (ddiv_lit (line_shipping_tax_total l) 2)) c ls,
      foldl (\<lambda>a l. dadd (dadd a (ddiv_lit (line_tax_total l) 2))
                     (ddiv_lit (line_shipping_tax_total l) 2)) s ls)"
  by (induction ls arbitrary: c s) (simp_all add: gst_step_def Let_def)

lemma round2_two_decimals:
  assumes "\<bar>x\<bar> < 10 ^ 21"
  shows "two_decimals_of x (round2 x)"
proof -
  define n where "n = \<lfloor>\<bar>x\<bar> * 100 + 1 / 2\<rfloor>"
  have lo: "of_int n \<le> \<bar>x\<bar> * 100 + 1 / 2" and hi: "\<bar>x\<bar> * 100 + 1 / 2 < of_int n + 1"
    unfolding n_def by linarith+
  have n0: "0 \<le> n" unfolding n_def by simp
  have r: "round2 x = (if x < 0 then - (of_int n / 100) else of_int n / 100)"
    using assms by (simp add: round2_def n_def)
  have int: "of_int \<lfloor>round2 x * 100\<rfloor> = round2 x * 100"
  proof (cases "x < 0")
    case True
    then have "round2 x * 100 = of_int (- n)" by (simp add: r)
    then show ?thesis by (simp only: floor_of_int)
  next
    case False
    then have "round2 x * 100 = of_int n" by (simp add: r)
    then show ?thesis by (simp only: floor_of_int)
  qed
  have d: "\<bar>round2 x - x\<bar> = \<bar>of_int n / 100 - \<bar>x\<bar>\<bar>"
    by (simp add: r abs_if)
  have a: "\<bar>round2 x\<bar> = of_int n / 100"
    using n0 by (simp add: r)
  have near: "\<bar>of_int n / 100 - \<bar>x\<bar>\<bar> \<le> 1 / 200"
    using lo hi by linarith
  have tie: "\<bar>of_int n / 100 - \<bar>x\<bar>\<bar> = 1 / 200 \<Longrightarrow> \<bar>x\<bar> < of_int n / 100"
    using lo hi by linarith
  from int near tie show ?thesis
    unfolding two_decimals_of_def d a by (auto simp: less_le)
qed

lemma gst_accumulators:
  "foldl gst_step (Fin 0, Fin 0) ls = (gst_half_sum ls, gst_half_sum ls)"
  by (simp add: foldl_gst_step gst_half_sum_def)

lemma number_toFixed2_zero: "number_toFixed2 (Fin 0) = Fin 0"
  by (simp add: number_toFixed2_def round_defs round_double_zero)

text \<open>C4, as the code has it. The breakdown gives half of each tax line's item tax and half
  of its shipping tax to each of the two accumulators, returns both sums rounded to two
  decimals and an IGST of exactly 0, and returns as total the rounding to two decimals of
  the sum of the three accumulators before they are rounded. Rounded to two decimals: the
  double nearest to the decimal of two places nearest to the accumulator. For the single
  rate of 18 with total tax 198 it returns 99, 99, 0 and 198.\<close>

theorem calculateGSTBreakdown_halves:
  "calculateGSTBreakdown None = \<lparr> cgst = Fin 0, sgst = Fin 0, igst = Fin 0, gst_total = Fin 0 \<rparr>
   \<and> calculateGSTBreakdown (Some tc) =
       \<lparr> cgst = number_toFixed2 (gst_half_sum (tax_lines tc)),
         sgst = number_toFixed2 (gst_half_sum (tax_lines tc)),
         igst = Fin 0,
         gst_total =
           number_toFixed2
             (dadd (dadd (gst_half_sum (tax_lines tc)) (gst_half_sum (tax_lines tc))) (Fin 0)) \<rparr>
   \<and> (\<bar>x\<bar> < 10 ^ 21 \<longrightarrow>
         number_toFixed2 (Fin x) = round_double (round2 x) \<and> two_decimals_of x (round2 x))
   \<and> (10 ^ 21 \<le> \<bar>x\<bar> \<longrightarrow> number_toFixed2 (Fin x) = Fin x)
   \<and> number_toFixed2 NaN = NaN \<and> number_toFixed2 PInf = PInf \<and> number_toFixed2 NInf = NInf
   \<and> (case calculateTaxes_ieee [sample_item] (Fin 1000) (Fin 100) [gst18] of
         Inl e \<Rightarrow> False
       | Inr taxes \<Rightarrow>
           dadd (tax_total taxes) (shipping_tax_total taxes) = Fin 198
           \<and> calculateGSTBreakdown (Some taxes) =
               \<lparr> cgst = Fin 99, sgst = Fin 99, igst = Fin 0, gst_total = Fin 198 \<rparr>)"
proof (intro conjI impI)
  show "calculateGSTBreakdown None = \<lparr> cgst = Fin 0, sgst = Fin 0, igst = Fin 0, gst_total = Fin 0 \<rparr>"
    by (simp add: calculateGSTBreakdown_def)
  show "calculateGSTBreakdown (Some tc) =
       \<lparr> cgst = number_toFixed2 (gst_half_sum (tax_lines tc)),
         sgst = number_toFixed2 (gst_half_sum (tax_lines tc)),
         igst = Fin 0,
         gst_total =
           number_toFixed2
             (dadd (dadd (gst_half_sum (tax_lines tc)) (gst_half_sum (tax_lines tc))) (Fin 0)) \<rparr>"
    by (simp add: calculateGSTBreakdown_def gst_accumulators number_toFixed2_zero)
  show "number_toFixed2 (Fin x) = round_double (round2 x)" if "\<bar>x\<bar> < 10 ^ 21"
    using that by (simp add: number_toFixed2_def)
  show "two_decimals_of x (round2 x)" if "\<bar>x\<bar> < 10 ^ 21"
    using that by (rule round2_two_decimals)
  show "number_toFixed2 (Fin x) = Fin x" if "10 ^ 21 \<le> \<bar>x\<bar>"
    using that by (simp add: number_toFixed2_def)
  show "number_toFixed2 NaN = NaN" "number_toFixed2 PInf = PInf" "number_toFixed2 NInf = NInf"
    by (simp_all add: number_toFixed2_def)
  show "case calculateTaxes_ieee [sample_item] (Fin 1000) (Fin 100) [gst18] of
         Inl e \<Rightarrow> False
       | Inr taxes \<Rightarrow>
           dadd (tax_total taxes) (shipping_tax_total taxes) = Fin 198
           \<and> calculateGSTBreakdown (Some taxes) =
               \<lparr> cgst = Fin 99, sgst = Fin 99, igst = Fin 0, gst_total = Fin 198 \<rparr>"
    by (simp add: sample_taxes_ieee calculateGSTBreakdown_def gst_step_def Let_def
        number_toFixed2_def round_defs round_double_numeral round_double_zero)
qed

lemma small_roundings:
  "round_double (3458764513820541 / 576460752303423488) = Fin (3458764513820541 / 576460752303423488)"
  "round_double (1 / 100) = Fin (5764607523034235 / 576460752303423488)"
  "round_double (1080863910568919 / 90071992547409920) = Fin (3458764513820541 / 288230376151711744)"
  "round_double (3458764513820541 / 288230376151711744) = Fin (3458764513820541 / 288230376151711744)"
  "round_double (5764607523034235 / 288230376151711744) = Fin (5764607523034235 / 288230376151711744)"
  "round_double (5404319552844595 / 4503599627370496) = Fin (5404319552844595 / 4503599627370496)"
proof -
  show "round_double (3458764513820541 / 576460752303423488) = Fin (3458764513820541 / 576460752303423488)"
    by (subst round_double_normal [where e = "- 8"]) (simp_all add: round_double_defs)
  show "round_double (1 / 100) = Fin (5764607523034235 / 576460752303423488)"
    by (subst round_double_normal [where e = "- 7"]) (simp_all add: round_double_defs)
  show "round_double (1080863910568919 / 90071992547409920) = Fin (3458764513820541 / 288230376151711744)"
    by (subst round_double_normal [where e = "- 7"]) (simp_all add: round_double_defs)
  show "round_double (3458764513820541 / 288230376151711744) = Fin (3458764513820541 / 288230376151711744)"
    by (subst round_double_normal [where e = "- 7"]) (simp_all add: round_double_defs)
  show "round_double (5764607523034235 / 288230376151711744) = Fin (5764607523034235 / 288230376151711744)"
    by (subst round_double_normal [where e = "- 6"]) (simp_all add: round_double_defs)
  show "round_double (5404319552844595 / 4503599627370496) = Fin (5404319552844595 / 4503599627370496)"
    by (subst round_double_normal [where e = "0"]) (simp_all add: round_double_defs)
qed

lemma small_taxes_ieee:
  "calculateTaxes_ieee [small_item] (Fin (5404319552844595 / 4503599627370496)) (Fin 0) [one_percent] =
     Inr \<lparr> tax_total = Fin (3458764513820541 / 288230376151711744), shipping_tax_total = Fin 0,
       tax_lines =
         [\<lparr> line_id = 4, rate_code = ''TAX-4'', line_rate_id = 4, label = ''Cess'',
            line_compound = False,
            line_tax_total = Fin (3458764513820541 / 288230376151711744),
            line_shipping_tax_total = Fin 0,
            rate_percent = Fin 1, line_tax_class = ''standard'' \<rparr>] \<rparr>"
  by (simp add: ieee_defs parse_defs small_item_def one_percent_def small_roundings)


lemma gst_small_values:
  "calculateGSTBreakdown
     (Some \<lparr> tax_total = Fin (3458764513820541 / 288230376151711744),
             shipping_tax_total = Fin 0,
             tax_lines =
               [\<lparr> line_id = 4, rate_code = ''TAX-4'', line_rate_id = 4, label = ''Cess'',
                  line_compound = False,
                  line_tax_total = Fin (3458764513820541 / 288230376151711744),
                  line_shipping_tax_total = Fin 0,
                  rate_percent = Fin 1, line_tax_class = ''standard'' \<rparr>] \<rparr>) =
     \<lparr> cgst = Fin (5764607523034235 / 576460752303423488),
       sgst = Fin (5764607523034235 / 576460752303423488),
       igst = Fin 0,
       gst_total = Fin (5764607523034235 / 576460752303423488) \<rparr>"
  by (simp add: calculateGSTBreakdown_def gst_step_def Let_def number_toFixed2_def
      round_defs small_roundings round_double_zero)

text \<open>C4 as stated asks for a total equal to the sum of the three buckets. A cart of one
  item of 1.20 taxed at 1 percent has a tax of 0.012: each bucket is 0.006 and is returned
  as 0.01, and the total is 0.012 rounded, which is 0.01: neither 0.02, the sum of the
  buckets as returned, nor 0.012, their sum before the rounding.\<close>

theorem gst_total_not_sum_of_buckets:
  "(case calculateTaxes_ieee [small_item] (Fin (5404319552844595 / 4503599627370496)) (Fin 0)
           [one_percent] of
      Inl e \<Rightarrow> False
    | Inr taxes \<Rightarrow>
        gst_total (calculateGSTBreakdown (Some taxes))
          \<noteq> dadd (dadd (cgst (calculateGSTBreakdown (Some taxes)))
                      (sgst (calculateGSTBreakdown (Some taxes))))
                (igst (calculateGSTBreakdown (Some taxes)))
        \<and> gst_total (calculateGSTBreakdown (Some taxes))
          \<noteq> dadd (tax_total taxes) (shipping_tax_total taxes))"
  by (simp add: small_taxes_ieee gst_small_values small_roundings)

text \<open>A tax of an odd number of cents: 199 at 5 percent. The double for 9.95 is a little
  below 9.95, so is its half, and each bucket is 4.97.\<close>

lemma odd_roundings:
  "round_double (497 / 100) = Fin (5595722537007841 / 1125899906842624)"
  "round_double (2800676018271027 / 562949953421312) = Fin (2800676018271027 / 562949953421312)"
  "round_double (2800676018271027 / 281474976710656) = Fin (2800676018271027 / 281474976710656)"
  "round_double (199 / 20) = Fin (2800676018271027 / 281474976710656)"
proof -
  show "round_double (497 / 100) = Fin (5595722537007841 / 1125899906842624)"
    by (subst round_double_normal [where e = "2"]) (simp_all add: round_double_defs)
  show "round_double (2800676018271027 / 562949953421312) = Fin (2800676018271027 / 562949953421312)"
    by (subst round_double_normal [where e = "2"]) (simp_all add: round_double_defs)
  show "round_double (2800676018271027 / 281474976710656) = Fin (2800676018271027 / 281474976710656)"
    by (subst round_double_normal [where e = "3"]) (simp_all add: round_double_defs)
  show "round_double (199 / 20) = Fin (2800676018271027 / 281474976710656)"
    by (subst round_double_normal [where e = "3"]) (simp_all add: round_double_defs)
qed

lemma odd_taxes_ieee:
  "calculateTaxes_ieee [odd_item] (Fin 199) (Fin 0) [reduced5] =
     Inr \<lparr> tax_total = Fin (2800676018271027 / 281474976710656), shipping_tax_total = Fin 0,
       tax_lines =
         [\<lparr> line_id = 2, rate_code = ''TAX-2'', line_rate_id = 2, label = ''GST 5'',
            line_compound = False,
            line_tax_total = Fin (2800676018271027 / 281474976710656),
            line_shipping_tax_total = Fin 0,
            rate_percent = Fin 5, line_tax_class = ''reduced-rate'' \<rparr>] \<rparr>"
  by (simp add: ieee_defs parse_defs odd_item_def reduced5_def odd_roundings)

lemma gst_odd_cents:
  "(case calculateTaxes_ieee [odd_item] (Fin 199) (Fin 0) [reduced5] of
      Inl e \<Rightarrow> False
    | Inr taxes \<Rightarrow>
        tax_total taxes = round_double (995 / 100)
        \<and> cgst (calculateGSTBreakdown (Some taxes)) = round_double (497 / 100)
        \<and> sgst (calculateGSTBreakdown (Some taxes)) = round_double (497 / 100)
        \<and> gst_total (calculateGSTBreakdown (Some taxes)) = round_double (995 / 100))"
  by (simp add: odd_taxes_ieee calculateGSTBreakdown_def gst_step_def Let_def
      number_toFixed2_def round_defs odd_roundings round_double_zero)


theorem calculateGSTBreakdown_halves_witness:
  "\<bar>2800676018271027 / 562949953421312 :: rat\<bar> < 10 ^ 21
   \<and> number_toFixed2 (Fin (2800676018271027 / 562949953421312)) = round_double (497 / 100)
   \<and> two_decimals_of (2800676018271027 / 562949953421312) (497 / 100)
   \<and> (10 :: rat) ^ 21 \<le> \<bar>10 ^ 21\<bar> \<and> number_toFixed2 (Fin (10 ^ 21)) = Fin (10 ^ 21)
   \<and> calculateGSTBreakdown
        (Some \<lparr> tax_total = Fin (2800676018271027 / 281474976710656),
                shipping_tax_total = Fin 0,
                tax_lines =
                  [\<lparr> line_id = 2, rate_code = ''TAX-2'', line_rate_id = 2, label = ''GST 5'',
                     line_compound = False,
                     line_tax_total = Fin (2800676018271027 / 281474976710656),
                     line_shipping_tax_total = Fin 0,
                     rate_percent = Fin 5, line_tax_class = ''reduced-rate'' \<rparr>] \<rparr>) =
       \<lparr> cgst = round_double (497 / 100), sgst = round_double (497 / 100), igst = Fin 0,
         gst_total = round_double (995 / 100) \<rparr>"
proof -
  let ?half = "2800676018271027 / 562949953421312 :: rat"
  let ?tc = "\<lparr> tax_total = Fin (2800676018271027 / 281474976710656),
                shipping_tax_total = Fin 0,
                tax_lines =
                  [\<lparr> line_id = 2, rate_code = ''TAX-2'', line_rate_id = 2, label = ''GST 5'',
                     line_compound = False,
                     line_tax_total = Fin (2800676018271027 / 281474976710656),
                     line_shipping_tax_total = Fin 0,
                     rate_percent = Fin 5, line_tax_class = ''reduced-rate'' \<rparr>] \<rparr>"
  have r: "round2 ?half = 497 / 100"
    by (simp add: round_defs)
  have h: "\<bar>?half\<bar> < 10 ^ 21"
    by simp
  have g: "(10 :: rat) ^ 21 \<le> \<bar>10 ^ 21\<bar>"
    by simp
  note T1 = calculateGSTBreakdown_halves [of ?tc ?half]
  note T2 = calculateGSTBreakdown_halves [of ?tc "10 ^ 21"]
  from T1 h have "number_toFixed2 (Fin ?half) = round_double (round2 ?half)
      \<and> two_decimals_of ?half (round2 ?half)"
    by (elim conjE) (erule mp)
  then have a: "number_toFixed2 (Fin ?half) = round_double (497 / 100)
      \<and> two_decimals_of ?half (497 / 100)"
    by (simp only: r)
  from T2 g have b: "number_toFixed2 (Fin (10 ^ 21)) = Fin (10 ^ 21)"
    by (elim conjE) (erule mp)
  have s: "gst_half_sum (tax_lines ?tc) = Fin ?half"
    by (simp add: gst_half_sum_def odd_roundings round_double_zero)
  from T1 have "calculateGSTBreakdown (Some ?tc) =
       \<lparr> cgst = number_toFixed2 (gst_half_sum (tax_lines ?tc)),
         sgst = number_toFixed2 (gst_half_sum (tax_lines ?tc)),
         igst = Fin 0,
         gst_total =
           number_toFixed2
             (dadd (dadd (gst_half_sum (tax_lines ?tc)) (gst_half_sum (tax_lines ?tc)))
                (Fin 0)) \<rparr>"
    by (elim conjE)
  then have c: "calculateGSTBreakdown (Some ?tc) =
       \<lparr> cgst = round_double (497 / 100), sgst = round_double (497 / 100), igst = Fin 0,
         gst_total = round_double (995 / 100) \<rparr>"
    unfolding s by (simp add: number_toFixed2_def round_defs odd_roundings)
  from h a g b c show ?thesis
    by (intro conjI) (elim conjE, assumption)+
qed

subsection \<open>The shipping cost\<close>

text \<open>C6 as stated asks for a non-negative amount for every cost expression. The fixed
  cost \<^verbatim>\<open>-5\<close> holds no placeholder, parses to a finite number and is returned as it
  is.\<close>

theorem shipping_cost_negative:
  "\<not> non_negative (calculateShippingCost silent_host (flat_rate_method ''-5'') [sample_item])"
  by (simp add: calculateShippingCost_def flat_rate_method_def starts_with_def toNum_def
        parse_samples)

lemma non_negative_toNum:
  "non_negative (Fin (toNum (JStr s) 0)) \<longleftrightarrow> \<not> (\<exists>a<0. parseFloat s = Fin a)"
  by (cases "parseFloat s") (auto simp: toNum_def)

text \<open>C6, as the code has it. When the cost expression holds no placeholder, and when the
  evaluation of the substituted expression throws, the evaluator returns
  \<^verbatim>\<open>toNum\<close> of the expression; that amount is finite, and it is non-negative exactly
  when the expression does not parse to a negative number.\<close>

theorem calculateShippingCost_literal:
  "(\<not> includes_str (settings_cost_value m) ''[qty]''
      \<and> \<not> includes_str (settings_cost_value m) ''[cost]''
      \<longrightarrow> calculateShippingCost h m items = Fin (toNum (JStr (settings_cost_value m)) 0))
   \<and> (includes_str (settings_cost_value m) ''[qty]''
        \<and> js_eval h (replace_first (settings_cost_value m) ''[qty]''
             (js_numToString h (Fin (\<Sum>it\<leftarrow>items. quantity it)))) = None
      \<longrightarrow> calculateShippingCost h m items = Fin (toNum (JStr (settings_cost_value m)) 0))
   \<and> (\<not> includes_str (settings_cost_value m) ''[qty]''
        \<and> includes_str (settings_cost_value m) ''[cost]''
        \<and> js_eval h (replace_first (settings_cost_value m) ''[cost]''
             (js_numToString h (Fin (\<Sum>it\<leftarrow>items. price it * quantity it)))) = None
      \<longrightarrow> calculateShippingCost h m items = Fin (toNum (JStr (settings_cost_value m)) 0))
   \<and> (calculateShippingCost h m items = Fin (toNum (JStr (settings_cost_value m)) 0)
      \<longrightarrow> (non_negative (calculateShippingCost h m items)
           \<longleftrightarrow> \<not> (\<exists>a<0. parseFloat (settings_cost_value m) = Fin a)))"
proof (intro conjI impI)
  assume "\<not> includes_str (settings_cost_value m) ''[qty]''
      \<and> \<not> includes_str (settings_cost_value m) ''[cost]''"
  then show "calculateShippingCost h m items = Fin (toNum (JStr (settings_cost_value m)) 0)"
    by (simp add: calculateShippingCost_def)
next
  assume "includes_str (settings_cost_value m) ''[qty]''
        \<and> js_eval h (replace_first (settings_cost_value m) ''[qty]''
             (js_numToString h (Fin (\<Sum>it\<leftarrow>items. quantity it)))) = None"
  then show "calculateShippingCost h m items = Fin (toNum (JStr (settings_cost_value m)) 0)"
    by (simp add: calculateShippingCost_def Let_def foldl_add_sum_list)
next
  assume "\<not> includes_str (settings_cost_value m) ''[qty]''
        \<and> includes_str (settings_cost_value m) ''[cost]''
        \<and> js_eval h (replace_first (settings_cost_value m) ''[cost]''
             (js_numToString h (Fin (\<Sum>it\<leftarrow>items. price it * quantity it)))) = None"
  then show "calculateShippingCost h m items = Fin (toNum (JStr (settings_cost_value m)) 0)"
    by (simp add: calculateShippingCost_def Let_def foldl_add_sum_list)
next
  assume "calculateShippingCost h m items = Fin (toNum (JStr (settings_cost_value m)) 0)"
  then show "non_negative (calculateShippingCost h m items)
           \<longleftrightarrow> \<not> (\<exists>a<0. parseFloat (settings_cost_value m) = Fin a)"
    by (simp only: non_negative_toNum)
qed

theorem calculateShippingCost_literal_witness:
  "calculateShippingCost silent_host (flat_rate_method ''50.00'') [sample_item] = Fin 50
   \<and> non_negative (calculateShippingCost silent_host (flat_rate_method ''50.00'') [sample_item])
   \<and> calculateShippingCost silent_host (flat_rate_method ''10 * [qty]'') [sample_item] = Fin 10
   \<and> non_negative
        (calculateShippingCost silent_host (flat_rate_method ''10 * [qty]'') [sample_item])"
proof -
  note T1 = calculateShippingCost_literal
      [of "flat_rate_method ''50.00''" silent_host "[sample_item]"]
  note T2 = calculateShippingCost_literal
      [of "flat_rate_method ''10 * [qty]''" silent_host "[sample_item]"]
  have v: "settings_cost_value (flat_rate_method c) = c" for c
    by (simp add: flat_rate_method_def)
  have a: "\<not> includes_str (settings_cost_value (flat_rate_method ''50.00'')) ''[qty]''
      \<and> \<not> includes_str (settings_cost_value (flat_rate_method ''50.00'')) ''[cost]''"
    unfolding v by (simp add: starts_with_def)
  have b: "includes_str (settings_cost_value (flat_rate_method ''10 * [qty]'')) ''[qty]''
        \<and> js_eval silent_host
             (replace_first (settings_cost_value (flat_rate_method ''10 * [qty]'')) ''[qty]''
                (js_numToString silent_host (Fin (\<Sum>it\<leftarrow>[sample_item]. quantity it)))) = None"
    unfolding v by (simp add: starts_with_def silent_host_def)
  have p: "\<not> (\<exists>a<0. parseFloat (settings_cost_value (flat_rate_method ''50.00'')) = Fin a)"
    "\<not> (\<exists>a<0. parseFloat (settings_cost_value (flat_rate_method ''10 * [qty]'')) = Fin a)"
    unfolding v by (simp_all add: parse_samples)
  have n: "toNum (JStr (settings_cost_value (flat_rate_method ''50.00''))) 0 = 50"
    "toNum (JStr (settings_cost_value (flat_rate_method ''10 * [qty]''))) 0 = 10"
    unfolding v by (simp_all add: toNum_def parse_samples)
  from T1 a have r1: "calculateShippingCost silent_host (flat_rate_method ''50.00'') [sample_item]
      = Fin (toNum (JStr (settings_cost_value (flat_rate_method ''50.00''))) 0)"
    by blast
  from T2 b have r2: "calculateShippingCost silent_host (flat_rate_method ''10 * [qty]'') [sample_item]
      = Fin (toNum (JStr (settings_cost_value (flat_rate_method ''10 * [qty]''))) 0)"
    by blast
  from T1 r1 p(1) have n1:
    "non_negative (calculateShippingCost silent_host (flat_rate_method ''50.00'') [sample_item])"
    by blast
  from T2 r2 p(2) have n2:
    "non_negative (calculateShippingCost silent_host (flat_rate_method ''10 * [qty]'') [sample_item])"
    by blast
  from r1 r2 n1 n2 show ?thesis
    by (simp add: n)
qed

subsection \<open>Remote lists that fail to load\<close>

lemma loaders_default:
  "loadTaxRates None = [] \<and> loadShippingMethods None = [] \<and> loadPaymentGateways None = []"
  by (simp add: loadTaxRates_def loadShippingMethods_def loadPaymentGateways_def)

lemma loadCart_fetched:
  assumes "session_response inp = Some (Some u)" "u \<noteq> 0" "cart_response inp = Some (coupons, Some fetched)"
  shows "loadCart h st inp =
     run_effects
       ((load_totals h
           ((run_effects
               (st\<lparr>loading := True, errorText := [], userId := Some u,
                    taxRates := loadTaxRates (tax_rates_response inp),
                    shippingMethods := loadShippingMethods (shipping_methods_response inp),
                    paymentGateways := loadPaymentGateways (payment_gateways_response inp)\<rparr>))
              \<lparr>appliedCoupons := coupons\<rparr>)
           fetched (loadShippingMethods (shipping_methods_response inp))
           (loadTaxRates (tax_rates_response inp))
           (loadPaymentGateways (payment_gateways_response inp)))\<lparr>loading := False\<rparr>)"
  using assms by (simp add: loadCart_def Let_def)

lemma load_totals_no_rates:
  "taxCalculation (load_totals h st fetched methods [] gateways) = None
   \<and> taxRates (load_totals h st fetched methods [] gateways) = taxRates st"
  by (simp add: load_totals_def Let_def taxCalculation_updateTaxCalculation)

lemma load_totals_no_gateways:
  "selectedPaymentMethod (load_totals h st fetched methods rates []) = None
   \<and> paymentGateways (load_totals h st fetched methods rates []) = paymentGateways st"
  by (simp add: load_totals_def Let_def determinePaymentMethod_no_gateways)

lemma load_totals_no_methods:
  "shippingLines (load_totals h st fetched [] rates gateways) = shippingLines st"
  by (simp add: load_totals_def Let_def)

lemma loadCart_no_rates:
  assumes "session_response inp = Some (Some u)" "u \<noteq> 0" "cart_response inp = Some (coupons, Some fetched)"
    and "tax_rates_response inp = None"
  shows "taxCalculation (loadCart h st inp) = None \<and> totalTax (loadCart h st inp) = 0"
proof -
  have "taxCalculation (loadCart h st inp) = None"
    unfolding loadCart_fetched [OF assms(1-3)] assms(4)
    by (rule taxCalculation_run_effects_no_rates)
       (simp_all add: loaders_default load_totals_no_rates)
  then show ?thesis
    by (simp add: totalTax_def itemTaxTotal_def shippingTaxTotal_def)
qed

lemma loadCart_no_gateways:
  assumes "session_response inp = Some (Some u)" "u \<noteq> 0" "cart_response inp = Some (coupons, Some fetched)"
    and "payment_gateways_response inp = None"
  shows "selectedPaymentMethod (loadCart h st inp) = None"
  unfolding loadCart_fetched [OF assms(1-3)] assms(4)
  by (simp add: selectedPaymentMethod_run_effects_no_gateways loaders_default
        load_totals_no_gateways)

lemma loadCart_no_methods:
  assumes "session_response inp = Some (Some u)" "u \<noteq> 0" "cart_response inp = Some (coupons, Some fetched)"
    and "shipping_methods_response inp = None"
  shows "shippingLines (loadCart h st inp) = shippingLines st"
  unfolding loadCart_fetched [OF assms(1-3)] assms(4)
  by (simp add: loaders_default load_totals_no_methods)

lemma first_load_lines:
  "shippingLines (loadCart silent_host initial_state good_inputs) =
     [\<lparr> sl_id = 7, sl_method_title = ''Flat rate'', sl_method_id = ''flat_rate'',
        sl_instance_id = ''3'', sl_total = ''50.00'', sl_total_tax = ''0.00'',
        sl_tax_status = ''taxable'' \<rparr>]"
proof -
  have g: "session_response good_inputs = Some (Some 12)" "(12 :: int) \<noteq> 0"
    "cart_response good_inputs = Some ([], Some [sample_item])"
    by (simp_all add: good_inputs_def)
  have c: "calculateShippingCost silent_host (flat_rate_method ''50.00'') [sample_item] = Fin 50"
    by (simp add: calculateShippingCost_def flat_rate_method_def starts_with_def toNum_def
          parse_samples)
  have t: "toFixed2 silent_host (Fin 50) = ''50.00''"
    by (simp add: toFixed2_def round_defs digit_chars)
  show ?thesis
    unfolding loadCart_fetched [OF g]
    by (simp add: load_totals_def Let_def good_inputs_def loadShippingMethods_def
          selectDefaultFlatRateMethod_def calculateShippingLines_def c t)
       (simp add: flat_rate_method_def show_int_def digit_chars)
qed

text \<open>On the first load, from the initial state, a list that fails to load gives no tax,
  no shipping and no payment method.\<close>

lemma first_load_degrades:
  assumes "session_response inp = Some (Some u)" "u \<noteq> 0" "cart_response inp = Some (coupons, Some fetched)"
  shows "(tax_rates_response inp = None \<longrightarrow> totalTax (loadCart h initial_state inp) = 0)
       \<and> (shipping_methods_response inp = None
            \<longrightarrow> shippingTotal (loadCart h initial_state inp) = 0)
       \<and> (payment_gateways_response inp = None
            \<longrightarrow> selectedPaymentMethod (loadCart h initial_state inp) = None)"
  using loadCart_no_rates [OF assms] loadCart_no_gateways [OF assms]
    loadCart_no_methods [OF assms]
  by (simp add: shippingTotal_def lines_total_def initial_state_def)

text \<open>C7. A failed request for the tax rates, the shipping methods or the payment gateways
  leaves an empty list, and the computation that follows is to give no tax, no shipping and
  no payment method. For the rates and the gateways it does, from every state
  (\<open>loadCart_no_rates\<close>, \<open>loadCart_no_gateways\<close>). For the shipping methods
  \<^verbatim>\<open>loadCart\<close> computes the tax on no shipping lines but leaves the shipping lines of
  the state as they were (\<open>loadCart_no_methods\<close>): when the screen is loaded again after
  a load that found a flat rate of 50.00 and the request for the shipping methods now
  fails, the shipping total is still 50.\<close>

theorem reload_keeps_stale_shipping:
  "shippingTotal
     (loadCart silent_host (loadCart silent_host initial_state good_inputs)
        (good_inputs\<lparr>shipping_methods_response := None\<rparr>)) = 50"
proof -
  have g: "session_response (good_inputs\<lparr>shipping_methods_response := None\<rparr>) = Some (Some 12)"
    "(12 :: int) \<noteq> 0"
    "cart_response (good_inputs\<lparr>shipping_methods_response := None\<rparr>) = Some ([], Some [sample_item])"
    "shipping_methods_response (good_inputs\<lparr>shipping_methods_response := None\<rparr>) = None"
    by (simp_all add: good_inputs_def)
  show ?thesis
    unfolding shippingTotal_def loadCart_no_methods [OF g] first_load_lines
    by (simp add: lines_total_def toNum_def parse_samples)
qed

subsection \<open>Reordering the cart\<close>

text \<open>On exact numbers the sums depend on the items only, not on their order.\<close>

lemma exact_totals_permutation_invariant:
  assumes "mset items' = mset items"
  shows "items_subtotal items' = items_subtotal items
       \<and> tax_total (calculateTaxes items' sub' sh rates)
           = tax_total (calculateTaxes items sub sh rates)
       \<and> shipping_tax_total (calculateTaxes items' sub' sh rates)
           = shipping_tax_total (calculateTaxes items sub sh rates)"
proof (intro conjI)
  have "sum_mset (image_mset (\<lambda>it. price it * quantity it) (mset items'))
          = sum_mset (image_mset (\<lambda>it. price it * quantity it) (mset items))"
    using assms by simp
  then show "items_subtotal items' = items_subtotal items"
    by (simp add: items_subtotal_sum sum_mset_sum_list [symmetric])
  show "tax_total (calculateTaxes items' sub' sh rates)
           = tax_total (calculateTaxes items sub sh rates)"
    using assms
    by (simp add: tax_total_by_class tax_classes_mset [OF assms] class_subtotal_mset [OF assms])
  show "shipping_tax_total (calculateTaxes items' sub' sh rates)
           = shipping_tax_total (calculateTaxes items sub sh rates)"
    by (simp add: shipping_tax_total_by_class tax_classes_mset [OF assms])
qed

lemma whole_number_iff: "whole_number x \<longleftrightarrow> (\<exists>n. x = of_int n)"
  by (simp add: whole_number_def)

lemma whole_number_product:
  assumes "whole_number p" "whole_number q"
  shows "whole_number (p * q)"
proof -
  from assms obtain m n where "p = of_int m" "q = of_int n"
    by (auto simp: whole_number_iff)
  then have "p * q = of_int (m * n)" by simp
  then show ?thesis
    unfolding whole_number_iff by (rule exI)
qed

lemma whole_number_sum:
  assumes "whole_number p" "whole_number q"
  shows "whole_number (p + q)"
proof -
  from assms obtain m n where "p = of_int m" "q = of_int n"
    by (auto simp: whole_number_iff)
  then have "p + q = of_int (m + n)" by simp
  then show ?thesis
    unfolding whole_number_iff by (rule exI)
qed

lemma round_double_whole_number:
  "whole_number x \<Longrightarrow> \<bar>x\<bar> < 2 ^ 53 \<Longrightarrow> round_double x = Fin x"
  unfolding whole_number_def by (rule round_double_whole)

lemma whole_sum_exact:
  assumes "whole_number s"
    and "list_all (\<lambda>it. whole_number (price it) \<and> whole_number (quantity it)) items"
    and "\<bar>s\<bar> + (\<Sum>it\<leftarrow>items. \<bar>price it * quantity it\<bar>) < 2 ^ 53"
  shows "foldl (\<lambda>s it. dadd s (dmul (Fin (price it)) (Fin (quantity it)))) (Fin s) items
           = Fin (s + (\<Sum>it\<leftarrow>items. price it * quantity it))"
  using assms
proof (induction items arbitrary: s)
  case Nil
  show ?case by simp
next
  case (Cons x xs)
  let ?v = "price x * quantity x"
  have rest: "0 \<le> (\<Sum>it\<leftarrow>xs. \<bar>price it * quantity it\<bar>)"
    by (rule sum_list_nonneg) auto
  have wv: "whole_number ?v"
    using Cons.prems(2) by (simp add: whole_number_product)
  have bv: "\<bar>?v\<bar> < 2 ^ 53"
    using Cons.prems(3) rest by simp
  have ws: "whole_number (s + ?v)"
    using Cons.prems(1) wv by (rule whole_number_sum)
  have bs: "\<bar>s + ?v\<bar> < 2 ^ 53"
    using Cons.prems(3) rest by simp
  have step: "dadd (Fin s) (dmul (Fin (price x)) (Fin (quantity x))) = Fin (s + ?v)"
    by (simp add: round_double_whole_number [OF wv bv] round_double_whole_number [OF ws bs])
  have "foldl (\<lambda>s it. dadd s (dmul (Fin (price it)) (Fin (quantity it)))) (Fin (s + ?v)) xs
          = Fin (s + ?v + (\<Sum>it\<leftarrow>xs. price it * quantity it))"
  proof (rule Cons.IH [OF ws])
    show "list_all (\<lambda>it. whole_number (price it) \<and> whole_number (quantity it)) xs"
      using Cons.prems(2) by simp
    show "\<bar>s + ?v\<bar> + (\<Sum>it\<leftarrow>xs. \<bar>price it * quantity it\<bar>) < 2 ^ 53"
      using Cons.prems(3) by simp
  qed
  then show ?case
    by (simp only: foldl_Cons step) (simp add: add.assoc)
qed

lemma whole_number_zero: "whole_number 0"
  unfolding whole_number_iff by (rule exI [of _ 0]) simp

lemma items_subtotal_ieee_exact:
  assumes "whole_number_cart items"
  shows "items_subtotal_ieee items = Fin (items_subtotal items)"
  using assms whole_sum_exact [of 0 items]
  by (simp add: whole_number_cart_def whole_number_zero items_subtotal_ieee_def
      items_subtotal_sum)

lemma whole_number_cart_filter:
  assumes "whole_number_cart items"
  shows "whole_number_cart (filter P items)"
proof -
  have "(\<Sum>it\<leftarrow>filter P xs. \<bar>price it * quantity it\<bar>) \<le> (\<Sum>it\<leftarrow>xs. \<bar>price it * quantity it\<bar>)"
    for xs :: "CartItem list"
    by (induction xs) (simp_all add: add_increasing)
  with assms show ?thesis
    unfolding whole_number_cart_def
    by (auto simp: list_all_iff intro: le_less_trans)
qed

lemma claimed_class_subtotal_exact:
  assumes "whole_number_cart items"
  shows "claimed_class_subtotal items c
           = Fin (\<Sum>it\<leftarrow>filter (\<lambda>it. claimed_class it = c) items. price it * quantity it)"
proof -
  have "claimed_class_subtotal items c
          = items_subtotal_ieee (filter (\<lambda>it. claimed_class it = c) items)"
    by (simp add: claimed_class_subtotal_def running_total_def items_subtotal_ieee_def
        foldl_map line_total_def)
  then show ?thesis
    using items_subtotal_ieee_exact [OF whole_number_cart_filter [OF assms]]
    by (simp add: items_subtotal_sum)
qed

lemma whole_number_cart_mset:
  assumes "mset items' = mset items" "whole_number_cart items"
  shows "whole_number_cart items'"
proof -
  have "set items' = set items"
    using assms(1) by (metis set_mset_mset)
  moreover have "(\<Sum>it\<leftarrow>items'. \<bar>price it * quantity it\<bar>) = (\<Sum>it\<leftarrow>items. \<bar>price it * quantity it\<bar>)"
  proof -
    have "sum_mset (image_mset (\<lambda>it. \<bar>price it * quantity it\<bar>) (mset items'))
          = sum_mset (image_mset (\<lambda>it. \<bar>price it * quantity it\<bar>) (mset items))"
      using assms(1) by simp
    then show ?thesis
      by (simp add: sum_mset_sum_list [symmetric])
  qed
  ultimately show ?thesis
    using assms(2) by (simp add: whole_number_cart_def list_all_iff)
qed

lemma claimed_class_subtotal_mset:
  assumes "mset items' = mset items" "whole_number_cart items"
  shows "claimed_class_subtotal items' c = claimed_class_subtotal items c"
proof -
  have "sum_mset (image_mset (\<lambda>it. price it * quantity it)
            (filter_mset (\<lambda>it. claimed_class it = c) (mset items')))
      = sum_mset (image_mset (\<lambda>it. price it * quantity it)
            (filter_mset (\<lambda>it. claimed_class it = c) (mset items)))"
    using assms(1) by simp
  then have "(\<Sum>it\<leftarrow>filter (\<lambda>it. claimed_class it = c) items'. price it * quantity it)
      = (\<Sum>it\<leftarrow>filter (\<lambda>it. claimed_class it = c) items. price it * quantity it)"
    by (simp add: sum_mset_sum_list [symmetric])
  then show ?thesis
    using claimed_class_subtotal_exact [OF assms(2)]
      claimed_class_subtotal_exact [OF whole_number_cart_mset [OF assms]]
    by simp
qed

lemma calculateTaxes_ieee_same_class_order:
  assumes "mset items' = mset items" "whole_number_cart items"
    and "claimed_classes items' = claimed_classes items"
  shows "calculateTaxes_ieee items' sub' sh rates = calculateTaxes_ieee items sub sh rates"
proof -
  have s: "set items' = set items"
    using assms(1) by (metis set_mset_mset)
  have p: "claimed_pairs items' rates = claimed_pairs items rates"
    by (simp add: claimed_pairs_def assms(3))
  have t: "claimed_item_tax items' = claimed_item_tax items"
    by (simp add: fun_eq_iff claimed_item_tax_def claimed_class_subtotal_mset [OF assms(1,2)])
  have l: "claimed_tax_line items' sh = claimed_tax_line items sh"
    by (simp add: fun_eq_iff claimed_tax_line_def t)
  show ?thesis
    by (simp only: calculateTaxes_ieee_by_pairs s p t l)
qed

lemma calculateTaxes_ieee_throws_mset:
  assumes "mset items' = mset items"
  shows "(calculateTaxes_ieee items' sub' sh rates = Inl TypeError)
           = (calculateTaxes_ieee items sub sh rates = Inl TypeError)"
proof -
  have s: "set items' = set items"
    using assms(1) by (metis set_mset_mset)
  show ?thesis
    by (simp add: calculateTaxes_ieee_by_pairs s)
qed

lemma parse_roundings:
  "round_double (1 / 10) = Fin (3602879701896397 / 36028797018963968)"
  "round_double (1 / 5) = Fin (3602879701896397 / 18014398509481984)"
  "round_double (3 / 10) = Fin (5404319552844595 / 18014398509481984)"
  "round_double (6 / 5) = Fin (5404319552844595 / 4503599627370496)"
  "round_double (201 / 200) = Fin (1131529406376837 / 1125899906842624)"
proof -
  show "round_double (1 / 10) = Fin (3602879701896397 / 36028797018963968)"
    by (subst round_double_normal [where e = "- 4"]) (simp_all add: round_double_defs)
  show "round_double (1 / 5) = Fin (3602879701896397 / 18014398509481984)"
    by (subst round_double_normal [where e = "- 3"]) (simp_all add: round_double_defs)
  show "round_double (3 / 10) = Fin (5404319552844595 / 18014398509481984)"
    by (subst round_double_normal [where e = "- 2"]) (simp_all add: round_double_defs)
  show "round_double (6 / 5) = Fin (5404319552844595 / 4503599627370496)"
    by (subst round_double_normal [where e = "0"]) (simp_all add: round_double_defs)
  show "round_double (201 / 200) = Fin (1131529406376837 / 1125899906842624)"
    by (subst round_double_normal [where e = "0"]) (simp_all add: round_double_defs)
qed

lemma sweets_roundings:
  "round_double (1080863910568919 / 18014398509481984) = Fin (1080863910568919 / 18014398509481984)"
  "round_double (3 / 50) = Fin (1080863910568919 / 18014398509481984)"
  "round_double (1351079888211149 / 22517998136852480) = Fin (4323455642275677 / 72057594037927936)"
  "round_double (4323455642275677 / 72057594037927936) = Fin (4323455642275677 / 72057594037927936)"
  "round_double (3602879701896397 / 36028797018963968) = Fin (3602879701896397 / 36028797018963968)"
  "round_double (3602879701896397 / 18014398509481984) = Fin (3602879701896397 / 18014398509481984)"
  "round_double (5404319552844595 / 18014398509481984) = Fin (5404319552844595 / 18014398509481984)"
  "round_double (10808639105689191 / 36028797018963968) = Fin (1351079888211149 / 4503599627370496)"
  "round_double (1 / 2) = Fin (1 / 2)"
  "round_double (21617278211378381 / 36028797018963968) = Fin (5404319552844595 / 9007199254740992)"
  "round_double (10808639105689191 / 18014398509481984) = Fin (1351079888211149 / 2251799813685248)"
  "round_double (27021597764222975 / 4503599627370496) = Fin (6)"
  "round_double (6755399441055745 / 1125899906842624) = Fin (6755399441055745 / 1125899906842624)"
proof -
  show "round_double (1080863910568919 / 18014398509481984) = Fin (1080863910568919 / 18014398509481984)"
    by (subst round_double_normal [where e = "- 5"]) (simp_all add: round_double_defs)
  show "round_double (3 / 50) = Fin (1080863910568919 / 18014398509481984)"
    by (subst round_double_normal [where e = "- 5"]) (simp_all add: round_double_defs)
  show "round_double (1351079888211149 / 22517998136852480) = Fin (4323455642275677 / 72057594037927936)"
    by (subst round_double_normal [where e = "- 5"]) (simp_all add: round_double_defs)
  show "round_double (4323455642275677 / 72057594037927936) = Fin (4323455642275677 / 72057594037927936)"
    by (subst round_double_normal [where e = "- 5"]) (simp_all add: round_double_defs)
  show "round_double (3602879701896397 / 36028797018963968) = Fin (3602879701896397 / 36028797018963968)"
    by (subst round_double_normal [where e = "- 4"]) (simp_all add: round_double_defs)
  show "round_double (3602879701896397 / 18014398509481984) = Fin (3602879701896397 / 18014398509481984)"
    by (subst round_double_normal [where e = "- 3"]) (simp_all add: round_double_defs)
  show "round_double (5404319552844595 / 18014398509481984) = Fin (5404319552844595 / 18014398509481984)"
    by (subst round_double_normal [where e = "- 2"]) (simp_all add: round_double_defs)
  show "round_double (10808639105689191 / 36028797018963968) = Fin (1351079888211149 / 4503599627370496)"
    by (subst round_double_normal [where e = "- 2"]) (simp_all add: round_double_defs)
  show "round_double (1 / 2) = Fin (1 / 2)"
    by (subst round_double_normal [where e = "- 1"]) (simp_all add: round_double_defs)
  show "round_double (21617278211378381 / 36028797018963968) = Fin (5404319552844595 / 9007199254740992)"
    by (subst round_double_normal [where e = "- 1"]) (simp_all add: round_double_defs)
  show "round_double (10808639105689191 / 18014398509481984) = Fin (1351079888211149 / 2251799813685248)"
    by (subst round_double_normal [where e = "- 1"]) (simp_all add: round_double_defs)
  show "round_double (27021597764222975 / 4503599627370496) = Fin (6)"
    by (subst round_double_normal [where e = "2"]) (simp_all add: round_double_defs)
  show "round_double (6755399441055745 / 1125899906842624) = Fin (6755399441055745 / 1125899906842624)"
    by (subst round_double_normal [where e = "2"]) (simp_all add: round_double_defs)
qed

lemma sweets_subtotals:
  "items_subtotal_ieee [item_010, item_020, item_030] = Fin (1351079888211149 / 2251799813685248)"
  "items_subtotal_ieee [item_030, item_020, item_010] = Fin (5404319552844595 / 9007199254740992)"
  by (simp_all add: items_subtotal_ieee_def item_010_def item_020_def item_030_def
      priced_item_def sweets_roundings)

lemma sweets_prices:
  "toNum (JStr ''0.10'') 0 = price item_010" "toNum (JStr ''0.20'') 0 = price item_020"
  "toNum (JStr ''0.30'') 0 = price item_030" "toNum (JStr ''1.20'') 0 = price small_item"
  by (simp_all add: toNum_def parse_defs parse_roundings item_010_def item_020_def
      item_030_def priced_item_def small_item_def)

lemma sweets_taxes:
  "calculateTaxes_ieee [item_010, item_020, item_030]
       (Fin (1351079888211149 / 2251799813685248)) (Fin 0) [ten_rate] =
     Inr \<lparr> tax_total = Fin (4323455642275677 / 72057594037927936), shipping_tax_total = Fin 0,
       tax_lines =
         [\<lparr> line_id = 5, rate_code = ''TAX-5'', line_rate_id = 5, label = ''Levy'',
            line_compound = False,
            line_tax_total = Fin (4323455642275677 / 72057594037927936),
            line_shipping_tax_total = Fin 0,
            rate_percent = Fin 10, line_tax_class = ''standard'' \<rparr>] \<rparr>"
  "calculateTaxes_ieee [item_030, item_020, item_010]
       (Fin (5404319552844595 / 9007199254740992)) (Fin 0) [ten_rate] =
     Inr \<lparr> tax_total = Fin (1080863910568919 / 18014398509481984), shipping_tax_total = Fin 0,
       tax_lines =
         [\<lparr> line_id = 5, rate_code = ''TAX-5'', line_rate_id = 5, label = ''Levy'',
            line_compound = False,
            line_tax_total = Fin (1080863910568919 / 18014398509481984),
            line_shipping_tax_total = Fin 0,
            rate_percent = Fin 10, line_tax_class = ''standard'' \<rparr>] \<rparr>"
  by (simp_all add: ieee_defs parse_defs item_010_def item_020_def item_030_def
      priced_item_def ten_rate_def sweets_roundings)

text \<open>C8, as the code has it. For every permutation of the list of cart items: the
  subtotal is unchanged when the cart is one of whole numbers (every price and quantity an
  integer, the absolute line totals below \<open>2\<^sup>5\<^sup>3\<close> in all); for such a cart the whole
  result of the tax calculator is unchanged when the permutation keeps the order in which
  the tax classes are visited; the subtotal, the tax total and the shipping tax total are
  unchanged whenever each of them is computed without a rounding error in both orders; and
  the calculator throws in the one order exactly when it throws in the other.\<close>

theorem totals_invariant_when_exact:
  assumes "mset items' = mset items"
  shows "(whole_number_cart items \<longrightarrow> items_subtotal_ieee items' = items_subtotal_ieee items)
   \<and> (whole_number_cart items \<and> claimed_classes items' = claimed_classes items
        \<longrightarrow> calculateTaxes_ieee items' sub' sh rates = calculateTaxes_ieee items sub sh rates)
   \<and> (items_subtotal_ieee items = Fin (items_subtotal items)
        \<and> items_subtotal_ieee items' = Fin (items_subtotal items')
        \<longrightarrow> items_subtotal_ieee items' = items_subtotal_ieee items)
   \<and> (sh = Fin x
        \<and> calculateTaxes_ieee items sub sh rates = Inr tc
        \<and> calculateTaxes_ieee items' sub' sh rates = Inr tc'
        \<and> tax_total tc = Fin (tax_total (calculateTaxes items s x rates))
        \<and> tax_total tc' = Fin (tax_total (calculateTaxes items' s' x rates))
        \<and> shipping_tax_total tc = Fin (shipping_tax_total (calculateTaxes items s x rates))
        \<and> shipping_tax_total tc' = Fin (shipping_tax_total (calculateTaxes items' s' x rates))
        \<longrightarrow> tax_total tc' = tax_total tc \<and> shipping_tax_total tc' = shipping_tax_total tc)
   \<and> (calculateTaxes_ieee items' sub' sh rates = Inl TypeError)
       = (calculateTaxes_ieee items sub sh rates = Inl TypeError)"
proof (intro conjI impI)
  note exact = exact_totals_permutation_invariant [OF assms]
  show "items_subtotal_ieee items' = items_subtotal_ieee items" if "whole_number_cart items"
    using that assms
    by (simp add: items_subtotal_ieee_exact whole_number_cart_mset exact [THEN conjunct1])
  show "calculateTaxes_ieee items' sub' sh rates = calculateTaxes_ieee items sub sh rates"
    if "whole_number_cart items \<and> claimed_classes items' = claimed_classes items"
    using that assms by (intro calculateTaxes_ieee_same_class_order) simp_all
  show "items_subtotal_ieee items' = items_subtotal_ieee items"
    if "items_subtotal_ieee items = Fin (items_subtotal items)
        \<and> items_subtotal_ieee items' = Fin (items_subtotal items')"
    using that by (simp add: exact [THEN conjunct1])
  assume h: "sh = Fin x
        \<and> calculateTaxes_ieee items sub sh rates = Inr tc
        \<and> calculateTaxes_ieee items' sub' sh rates = Inr tc'
        \<and> tax_total tc = Fin (tax_total (calculateTaxes items s x rates))
        \<and> tax_total tc' = Fin (tax_total (calculateTaxes items' s' x rates))
        \<and> shipping_tax_total tc = Fin (shipping_tax_total (calculateTaxes items s x rates))
        \<and> shipping_tax_total tc' = Fin (shipping_tax_total (calculateTaxes items' s' x rates))"
  then show "tax_total tc' = tax_total tc"
    by (simp add: exact [where sub' = s' and sh = x and rates = rates and sub = s])
  from h show "shipping_tax_total tc' = shipping_tax_total tc"
    by (simp add: exact [where sub' = s' and sh = x and rates = rates and sub = s])
next
  show "(calculateTaxes_ieee items' sub' sh rates = Inl TypeError)
       = (calculateTaxes_ieee items sub sh rates = Inl TypeError)"
    using assms by (rule calculateTaxes_ieee_throws_mset)
qed

text \<open>C8 as stated fails: the sums are sums of doubles, added from left to right. For
  items of 0.10, 0.20 and 0.30 the subtotal is 0.6000000000000001, and 0.6 for the same
  items in the opposite order; at a rate of 10 percent the tax totals are
  0.06000000000000001 and 0.06.\<close>

theorem sums_depend_on_order:
  "mset [item_030, item_020, item_010] = mset [item_010, item_020, item_030]
   \<and> items_subtotal_ieee [item_010, item_020, item_030] = Fin (1351079888211149 / 2251799813685248)
   \<and> items_subtotal_ieee [item_030, item_020, item_010] = Fin (5404319552844595 / 9007199254740992)
   \<and> items_subtotal_ieee [item_030, item_020, item_010]
       \<noteq> items_subtotal_ieee [item_010, item_020, item_030]
   \<and> (case calculateTaxes_ieee [item_010, item_020, item_030]
              (items_subtotal_ieee [item_010, item_020, item_030]) (Fin 0) [ten_rate] of
         Inl e \<Rightarrow> False
       | Inr taxes \<Rightarrow>
           (case calculateTaxes_ieee [item_030, item_020, item_010]
                   (items_subtotal_ieee [item_030, item_020, item_010]) (Fin 0) [ten_rate] of
              Inl e \<Rightarrow> False
            | Inr taxes' \<Rightarrow> tax_total taxes' \<noteq> tax_total taxes))"
  by (simp add: sweets_subtotals sweets_taxes)

lemma basket_taxes_ieee:
  "calculateTaxes_ieee [sample_item, reduced_item, prepaid_item] (Fin 2000) (Fin 50)
       [gst18, reduced5] =
     Inr \<lparr> tax_total = Fin 295, shipping_tax_total = Fin 9,
       tax_lines =
         [\<lparr> line_id = 1, rate_code = ''TAX-1'', line_rate_id = 1, label = ''GST'',
            line_compound = False, line_tax_total = Fin 270, line_shipping_tax_total = Fin 9,
            rate_percent = Fin 18, line_tax_class = ''standard'' \<rparr>,
          \<lparr> line_id = 2, rate_code = ''TAX-2'', line_rate_id = 2, label = ''GST 5'',
            line_compound = False, line_tax_total = Fin 25, line_shipping_tax_total = Fin 0,
            rate_percent = Fin 5, line_tax_class = ''reduced-rate'' \<rparr>] \<rparr>"
  by (simp add: ieee_defs parse_defs sample_item_def reduced_item_def prepaid_item_def
      gst18_def reduced5_def)

lemma basket_values:
  "items_subtotal_ieee [sample_item, reduced_item, prepaid_item] = Fin 2000"
  "items_subtotal_ieee [sample_item, prepaid_item, reduced_item] = Fin 2000"
  "items_subtotal [sample_item, reduced_item, prepaid_item] = 2000"
  "items_subtotal [sample_item, prepaid_item, reduced_item] = 2000"
  "tax_total (calculateTaxes [sample_item, reduced_item, prepaid_item] 2000 50 [gst18, reduced5]) = 295"
  "tax_total (calculateTaxes [sample_item, prepaid_item, reduced_item] 2000 50 [gst18, reduced5]) = 295"
  "shipping_tax_total (calculateTaxes [sample_item, reduced_item, prepaid_item] 2000 50 [gst18, reduced5]) = 9"
  "shipping_tax_total (calculateTaxes [sample_item, prepaid_item, reduced_item] 2000 50 [gst18, reduced5]) = 9"
  by (simp_all add: items_subtotal_ieee_def items_subtotal_def tax_defs Let_def parse_defs
      sample_item_def reduced_item_def prepaid_item_def gst18_def reduced5_def)

lemma basket_whole: "whole_number_cart [sample_item, reduced_item, prepaid_item]"
  by (simp add: whole_number_cart_def whole_number_def sample_item_def reduced_item_def
      prepaid_item_def)

lemma basket_classes:
  "claimed_classes [sample_item, reduced_item, prepaid_item] = [''standard'', ''reduced-rate'']"
  "claimed_classes [sample_item, prepaid_item, reduced_item] = [''standard'', ''reduced-rate'']"
  by (simp_all add: claimed_classes_def index_keys_first_def first_occurrences_def
      claimed_class_def is_array_index_def is_digit_def sample_item_def reduced_item_def
      prepaid_item_def)


lemma swapped_taxes_ieee:
  "calculateTaxes_ieee [reduced_item, sample_item] (Fin 1500) (Fin 50) [gst18, reduced5] =
     Inr \<lparr> tax_total = Fin 205, shipping_tax_total = Fin 9,
       tax_lines =
         [\<lparr> line_id = 2, rate_code = ''TAX-2'', line_rate_id = 2, label = ''GST 5'',
            line_compound = False, line_tax_total = Fin 25, line_shipping_tax_total = Fin 0,
            rate_percent = Fin 5, line_tax_class = ''reduced-rate'' \<rparr>,
          \<lparr> line_id = 1, rate_code = ''TAX-1'', line_rate_id = 1, label = ''GST'',
            line_compound = False, line_tax_total = Fin 180, line_shipping_tax_total = Fin 9,
            rate_percent = Fin 18, line_tax_class = ''standard'' \<rparr>] \<rparr>"
  by (simp add: ieee_defs parse_defs sample_item_def reduced_item_def gst18_def reduced5_def)

lemma swapped_values:
  "tax_total (calculateTaxes [sample_item, reduced_item] 1500 50 [gst18, reduced5]) = 205"
  "tax_total (calculateTaxes [reduced_item, sample_item] 1500 50 [gst18, reduced5]) = 205"
  "shipping_tax_total (calculateTaxes [sample_item, reduced_item] 1500 50 [gst18, reduced5]) = 9"
  "shipping_tax_total (calculateTaxes [reduced_item, sample_item] 1500 50 [gst18, reduced5]) = 9"
  by (simp_all add: tax_defs Let_def parse_defs sample_item_def reduced_item_def gst18_def
      reduced5_def)

theorem totals_invariant_when_exact_witness:
  "mset [sample_item, prepaid_item, reduced_item] = mset [sample_item, reduced_item, prepaid_item]
   \<and> whole_number_cart [sample_item, reduced_item, prepaid_item]
   \<and> claimed_classes [sample_item, prepaid_item, reduced_item]
       = claimed_classes [sample_item, reduced_item, prepaid_item]
   \<and> items_subtotal_ieee [sample_item, reduced_item, prepaid_item]
       = Fin (items_subtotal [sample_item, reduced_item, prepaid_item])
   \<and> items_subtotal_ieee [sample_item, prepaid_item, reduced_item]
       = Fin (items_subtotal [sample_item, prepaid_item, reduced_item])
   \<and> items_subtotal_ieee [sample_item, prepaid_item, reduced_item]
       = items_subtotal_ieee [sample_item, reduced_item, prepaid_item]
   \<and> calculateTaxes_ieee [sample_item, prepaid_item, reduced_item] (Fin 2000) (Fin 50)
         [gst18, reduced5]
       = calculateTaxes_ieee [sample_item, reduced_item, prepaid_item] (Fin 2000) (Fin 50)
           [gst18, reduced5]
   \<and> calculateTaxes_ieee [sample_item, prepaid_item, reduced_item] (Fin 2000) (Fin 50)
         [gst18, reduced5] \<noteq> Inl TypeError
   \<and> mset [reduced_item, sample_item] = mset [sample_item, reduced_item]
   \<and> (\<exists>tc tc'.
         calculateTaxes_ieee [sample_item, reduced_item] (Fin 1500) (Fin 50) [gst18, reduced5]
           = Inr tc
         \<and> calculateTaxes_ieee [reduced_item, sample_item] (Fin 1500) (Fin 50) [gst18, reduced5]
           = Inr tc'
         \<and> tax_total tc
           = Fin (tax_total (calculateTaxes [sample_item, reduced_item] 1500 50 [gst18, reduced5]))
         \<and> tax_total tc'
           = Fin (tax_total (calculateTaxes [reduced_item, sample_item] 1500 50 [gst18, reduced5]))
         \<and> tax_lines tc' \<noteq> tax_lines tc
         \<and> tax_total tc' = tax_total tc \<and> shipping_tax_total tc' = shipping_tax_total tc)"
proof -
  let ?a = "[sample_item, reduced_item, prepaid_item]"
  let ?b = "[sample_item, prepaid_item, reduced_item]"
  let ?c = "[sample_item, reduced_item]"
  let ?d = "[reduced_item, sample_item]"
  let ?std = "\<lparr> line_id = 1, rate_code = ''TAX-1'', line_rate_id = 1, label = ''GST'',
            line_compound = False, line_tax_total = Fin 180, line_shipping_tax_total = Fin 9,
            rate_percent = Fin 18, line_tax_class = ''standard'' \<rparr>"
  let ?red = "\<lparr> line_id = 2, rate_code = ''TAX-2'', line_rate_id = 2, label = ''GST 5'',
            line_compound = False, line_tax_total = Fin 25, line_shipping_tax_total = Fin 0,
            rate_percent = Fin 5, line_tax_class = ''reduced-rate'' \<rparr>"
  let ?tc = "\<lparr> tax_total = Fin 205, shipping_tax_total = Fin 9, tax_lines = [?std, ?red] \<rparr>"
  let ?tc' = "\<lparr> tax_total = Fin 205, shipping_tax_total = Fin 9, tax_lines = [?red, ?std] \<rparr>"
  have p: "mset ?b = mset ?a"
    by simp
  have w: "whole_number_cart ?a"
    by (rule basket_whole)
  have c: "claimed_classes ?b = claimed_classes ?a"
    by (simp only: basket_classes)
  have e: "items_subtotal_ieee ?a = Fin (items_subtotal ?a)"
    "items_subtotal_ieee ?b = Fin (items_subtotal ?b)"
    by (simp_all only: basket_values)
  note T = totals_invariant_when_exact [OF p, of "Fin 2000" "Fin 50" "[gst18, reduced5]"
      "Fin 2000" 50 ?tc ?tc 2000 2000]
  from T w have s1: "items_subtotal_ieee ?b = items_subtotal_ieee ?a"
    by (elim conjE) (erule mp)
  from T w c have t1: "calculateTaxes_ieee ?b (Fin 2000) (Fin 50) [gst18, reduced5]
       = calculateTaxes_ieee ?a (Fin 2000) (Fin 50) [gst18, reduced5]"
    by (elim conjE) (erule mp, intro conjI)
  from T have "(calculateTaxes_ieee ?b (Fin 2000) (Fin 50) [gst18, reduced5] = Inl TypeError)
       = (calculateTaxes_ieee ?a (Fin 2000) (Fin 50) [gst18, reduced5] = Inl TypeError)"
    by (elim conjE)
  then have n: "calculateTaxes_ieee ?b (Fin 2000) (Fin 50) [gst18, reduced5] \<noteq> Inl TypeError"
    by (simp add: basket_taxes_ieee)
  have q: "mset ?d = mset ?c"
    by simp
  have x: "(Fin 50 :: jsnum) = Fin 50
        \<and> calculateTaxes_ieee ?c (Fin 1500) (Fin 50) [gst18, reduced5] = Inr ?tc
        \<and> calculateTaxes_ieee ?d (Fin 1500) (Fin 50) [gst18, reduced5] = Inr ?tc'
        \<and> tax_total ?tc = Fin (tax_total (calculateTaxes ?c 1500 50 [gst18, reduced5]))
        \<and> tax_total ?tc' = Fin (tax_total (calculateTaxes ?d 1500 50 [gst18, reduced5]))
        \<and> shipping_tax_total ?tc
            = Fin (shipping_tax_total (calculateTaxes ?c 1500 50 [gst18, reduced5]))
        \<and> shipping_tax_total ?tc'
            = Fin (shipping_tax_total (calculateTaxes ?d 1500 50 [gst18, reduced5]))"
    by (simp add: checkout_taxes_ieee swapped_taxes_ieee swapped_values)
  note U = totals_invariant_when_exact [OF q, of "Fin 1500" "Fin 50" "[gst18, reduced5]"
      "Fin 1500" 50 ?tc ?tc' 1500 1500]
  from U x have y: "tax_total ?tc' = tax_total ?tc \<and> shipping_tax_total ?tc' = shipping_tax_total ?tc"
    by (elim conjE) (erule mp, intro conjI)
  have z: "tax_lines ?tc' \<noteq> tax_lines ?tc"
    by simp
  from x y z have ex: "\<exists>tc tc'.
         calculateTaxes_ieee ?c (Fin 1500) (Fin 50) [gst18, reduced5] = Inr tc
         \<and> calculateTaxes_ieee ?d (Fin 1500) (Fin 50) [gst18, reduced5] = Inr tc'
         \<and> tax_total tc = Fin (tax_total (calculateTaxes ?c 1500 50 [gst18, reduced5]))
         \<and> tax_total tc' = Fin (tax_total (calculateTaxes ?d 1500 50 [gst18, reduced5]))
         \<and> tax_lines tc' \<noteq> tax_lines tc
         \<and> tax_total tc' = tax_total tc \<and> shipping_tax_total tc' = shipping_tax_total tc"
    by (intro exI [of _ ?tc] exI [of _ ?tc'] conjI) (elim conjE, assumption)+
  from p w c e s1 t1 n q ex show ?thesis
    by (intro conjI)
qed

subsection \<open>Quantities in the cart\<close>

text \<open>No handler and no effect writes the cart items but the two operations themselves.\<close>

lemma cartItems_updateTaxCalculation [simp]:
  "cartItems (updateTaxCalculation st items sl rates) = cartItems st"
  by (simp add: updateTaxCalculation_def Let_def)

lemma cartItems_tax_effect [simp]: "cartItems (tax_effect st) = cartItems st"
  by (simp add: tax_effect_def)

lemma cartItems_payment_effect [simp]: "cartItems (payment_effect st) = cartItems st"
  by (simp add: payment_effect_def)

lemma cartItems_run_effects [simp]: "cartItems (run_effects st) = cartItems st"
  by (simp add: run_effects_def)

lemma cartItems_updateCartMeta [simp]:
  "cartItems (updateCartMeta h st items ok) = cartItems st"
  by (simp add: updateCartMeta_def Let_def)

lemma cartItems_updateQuantity:
  "cartItems (updateQuantity h st ident qty ok) =
     (if qty < 1 then cartItems st
      else map (\<lambda>it. if item_id it = ident then it\<lparr>quantity := qty\<rparr> else it) (cartItems st))"
  by (simp add: updateQuantity_def Let_def)

lemma cartItems_removeItem:
  "cartItems (removeItem h st ident ok) = filter (\<lambda>it. item_id it \<noteq> ident) (cartItems st)"
  by (simp add: removeItem_def Let_def)

text \<open>C9. If every item of the cart has a quantity of at least 1, then after a quantity
  update (which ignores a requested quantity below 1) and after the removal of an item,
  every item that remains has a quantity of at least 1.\<close>

theorem quantities_stay_at_least_one:
  assumes "\<forall>it \<in> set (cartItems st). 1 \<le> quantity it"
  shows "(\<forall>it \<in> set (cartItems (updateQuantity h st ident qty ok)). 1 \<le> quantity it)
       \<and> (\<forall>it \<in> set (cartItems (removeItem h st ident ok)). 1 \<le> quantity it)
       \<and> (qty < 1 \<longrightarrow> updateQuantity h st ident qty ok = st)"
proof (intro conjI)
  show "\<forall>it \<in> set (cartItems (updateQuantity h st ident qty ok)). 1 \<le> quantity it"
    using assms by (auto simp: cartItems_updateQuantity)
  show "\<forall>it \<in> set (cartItems (removeItem h st ident ok)). 1 \<le> quantity it"
    using assms by (simp add: cartItems_removeItem)
  show "qty < 1 \<longrightarrow> updateQuantity h st ident qty ok = st"
    by (simp add: updateQuantity_def)
qed

theorem quantities_stay_at_least_one_witness:
  "list_all (\<lambda>it. 1 \<le> quantity it) (cartItems sample_state)
   \<and> list_all (\<lambda>it. 1 \<le> quantity it)
       (cartItems (updateQuantity silent_host sample_state ''102'' 3 True))
   \<and> map quantity (cartItems (updateQuantity silent_host sample_state ''102'' 3 True)) = [1, 3]
   \<and> list_all (\<lambda>it. 1 \<le> quantity it)
       (cartItems (removeItem silent_host sample_state ''102'' True))
   \<and> updateQuantity silent_host sample_state ''102'' 0 True = sample_state"
proof -
  have h: "\<forall>it \<in> set (cartItems sample_state). 1 \<le> quantity it"
    by (simp add: sample_state_def sample_item_def reduced_item_def)
  have m: "map quantity (cartItems (updateQuantity silent_host sample_state ''102'' 3 True)) = [1, 3]"
    by (simp add: cartItems_updateQuantity sample_state_def sample_item_def reduced_item_def)
  from h m quantities_stay_at_least_one [OF h, of silent_host "''102''" 3 True]
       quantities_stay_at_least_one [OF h, of silent_host "''102''" 0 True]
  show ?thesis
    by (simp add: list_all_iff)
qed

subsection \<open>Numbers that do not parse\<close>

lemma applicableRates_filter:
  "applicableRates c (filter P rates) = filter P (applicableRates c rates)"
  by (auto simp: applicableRates_def intro: filter_cong)

lemma sum_list_filter_zero:
  fixes f :: "'a \<Rightarrow> rat"
  assumes "\<And>x. x \<in> set xs \<Longrightarrow> \<not> P x \<Longrightarrow> f x = 0"
  shows "sum_list (map f (filter P xs)) = sum_list (map f xs)"
  using assms by (induction xs) simp_all

lemma unparsed_rate_zero:
  "\<not> is_finite (parseFloat (rate r)) \<Longrightarrow> item_tax_of cs r = 0 \<and> shipping_tax_of sh r = 0"
  by (cases "parseFloat (rate r)") (simp_all add: item_tax_of_def shipping_tax_of_def toNum_def)

text \<open>C10. \<^verbatim>\<open>toNum\<close> is total: for every value it returns the parsed number when
  that is finite and the fallback otherwise. So a tax rate whose value does not parse
  contributes 0 to both tax totals, as if the rate were not in the list, and a fixed
  shipping cost that does not parse is 0; no NaN reaches the totals.\<close>

theorem toNum_finite_or_fallback:
  "(is_finite (parseFloat_String v) \<longrightarrow> Fin (toNum v fb) = parseFloat_String v)
   \<and> (\<not> is_finite (parseFloat_String v) \<longrightarrow> toNum v fb = fb)
   \<and> (\<not> is_finite (parseFloat (rate r))
        \<longrightarrow> item_tax_of cs r = 0 \<and> shipping_tax_of sh r = 0)
   \<and> tax_total (calculateTaxes items sub sh rates)
       = tax_total (calculateTaxes items sub sh
           (filter (\<lambda>r. is_finite (parseFloat (rate r))) rates))
   \<and> shipping_tax_total (calculateTaxes items sub sh rates)
       = shipping_tax_total (calculateTaxes items sub sh
           (filter (\<lambda>r. is_finite (parseFloat (rate r))) rates))
   \<and> (\<not> includes_str (settings_cost_value m) ''[qty]''
        \<and> \<not> includes_str (settings_cost_value m) ''[cost]''
        \<and> \<not> is_finite (parseFloat (settings_cost_value m))
        \<longrightarrow> calculateShippingCost h m items = Fin 0)"
proof (intro conjI)
  show "is_finite (parseFloat_String v) \<longrightarrow> Fin (toNum v fb) = parseFloat_String v"
    by (cases "parseFloat_String v") (simp_all add: toNum_def)
  show "\<not> is_finite (parseFloat_String v) \<longrightarrow> toNum v fb = fb"
    by (cases "parseFloat_String v") (simp_all add: toNum_def)
  show "\<not> is_finite (parseFloat (rate r))
        \<longrightarrow> item_tax_of cs r = 0 \<and> shipping_tax_of sh r = 0"
    using unparsed_rate_zero by blast
  show "tax_total (calculateTaxes items sub sh rates)
       = tax_total (calculateTaxes items sub sh
           (filter (\<lambda>r. is_finite (parseFloat (rate r))) rates))"
    unfolding tax_total_by_class applicableRates_filter
    by (simp add: sum_list_filter_zero unparsed_rate_zero)
  show "shipping_tax_total (calculateTaxes items sub sh rates)
       = shipping_tax_total (calculateTaxes items sub sh
           (filter (\<lambda>r. is_finite (parseFloat (rate r))) rates))"
    unfolding shipping_tax_total_by_class applicableRates_filter
    by (simp add: sum_list_filter_zero unparsed_rate_zero)
  show "\<not> includes_str (settings_cost_value m) ''[qty]''
        \<and> \<not> includes_str (settings_cost_value m) ''[cost]''
        \<and> \<not> is_finite (parseFloat (settings_cost_value m))
        \<longrightarrow> calculateShippingCost h m items = Fin 0"
    by (cases "parseFloat (settings_cost_value m)")
       (simp_all add: calculateShippingCost_def toNum_def)
qed

theorem toNum_finite_or_fallback_witness:
  "toNum (JStr ''18.0000'') 0 = 18
   \<and> toNum (JStr ''n/a'') 0 = 0
   \<and> toNum JNull 7 = 7
   \<and> item_tax_of 1000 broken_rate = 0 \<and> shipping_tax_of 100 broken_rate = 0
   \<and> tax_total (calculateTaxes [sample_item] 1000 100 [gst18, broken_rate])
       = tax_total (calculateTaxes [sample_item] 1000 100 [gst18])
   \<and> calculateShippingCost silent_host (flat_rate_method ''free'') [sample_item] = Fin 0"
proof -
  have a: "is_finite (parseFloat_String (JStr ''18.0000''))"
    "\<not> is_finite (parseFloat_String (JStr ''n/a''))"
    "\<not> is_finite (parseFloat_String JNull)"
    "\<not> is_finite (parseFloat (rate broken_rate))"
    by (simp_all add: parse_samples broken_rate_def) (simp add: parse_defs)
  have b: "\<not> includes_str (settings_cost_value (flat_rate_method ''free'')) ''[qty]''
        \<and> \<not> includes_str (settings_cost_value (flat_rate_method ''free'')) ''[cost]''
        \<and> \<not> is_finite (parseFloat (settings_cost_value (flat_rate_method ''free'')))"
    by (simp add: flat_rate_method_def starts_with_def parse_samples)
  have f: "filter (\<lambda>r. is_finite (parseFloat (rate r))) [gst18, broken_rate] = [gst18]"
    by (simp add: gst18_def broken_rate_def parse_samples)
  note T1 = toNum_finite_or_fallback [of "JStr ''18.0000''" 0 broken_rate 1000 100
      "[sample_item]" 1000 "[gst18, broken_rate]" "flat_rate_method ''free''" silent_host]
  note T2 = toNum_finite_or_fallback [of "JStr ''n/a''" 0 broken_rate 1000 100
      "[sample_item]" 1000 "[gst18, broken_rate]" "flat_rate_method ''free''" silent_host]
  note T3 = toNum_finite_or_fallback [of JNull 7 broken_rate 1000 100
      "[sample_item]" 1000 "[gst18, broken_rate]" "flat_rate_method ''free''" silent_host]
  from T1 a(1) have "Fin (toNum (JStr ''18.0000'') 0) = parseFloat_String (JStr ''18.0000'')"
    by blast
  then have c1: "toNum (JStr ''18.0000'') 0 = 18"
    by (simp add: parse_samples)
  from T2 a(2) have c2: "toNum (JStr ''n/a'') 0 = 0"
    by blast
  from T3 a(3) have c3: "toNum JNull 7 = 7"
    by blast
  from T1 a(4) have c4: "item_tax_of 1000 broken_rate = 0 \<and> shipping_tax_of 100 broken_rate = 0"
    by blast
  from T1 have c5: "tax_total (calculateTaxes [sample_item] 1000 100 [gst18, broken_rate])
       = tax_total (calculateTaxes [sample_item] 1000 100 [gst18])"
    unfolding f by blast
  from T1 b have c6: "calculateShippingCost silent_host (flat_rate_method ''free'') [sample_item] = Fin 0"
    by blast
  from c1 c2 c3 c4 c5 c6 show ?thesis
    by blast
qed

end
